theory Spec2Isabelle
  imports Complex_Main "HOL-Library.AList"
begin

section \<open>Python values, exceptions and built-ins\<close>

text \<open>
  The three sources are Python. An exception that leaves a function is a value
  \<open>Inl e\<close> of the result type \<open>error + 'a\<close>; a normal return is \<open>Inr x\<close>.
\<close>

datatype error = KeyError | ValueError | IndexError | NameError

text \<open>Sequencing of two fallible steps: an exception of the first step skips the second.\<close>

definition ebind :: "error + 'a \<Rightarrow> ('a \<Rightarrow> error + 'b) \<Rightarrow> error + 'b" where
  "ebind m f = (case m of Inl e \<Rightarrow> Inl e | Inr x \<Rightarrow> f x)"

text \<open>\<^verbatim>\<open>xs.index(x)\<close>: the position of the first element equal to \<open>x\<close>; \<open>None\<close> stands
  for the \<^verbatim>\<open>ValueError\<close> the caller either catches or lets through.\<close>

fun index_of :: "'a list \<Rightarrow> 'a \<Rightarrow> nat option" where
  "index_of [] x = None"
| "index_of (y # ys) x = (if y = x then Some 0 else map_option Suc (index_of ys x))"

definition py_index :: "'a list \<Rightarrow> 'a \<Rightarrow> error + nat" where
  "py_index xs x = (case index_of xs x of None \<Rightarrow> Inl ValueError | Some i \<Rightarrow> Inr i)"

text \<open>\<^verbatim>\<open>xs[i]\<close> and \<^verbatim>\<open>xs[i] = v\<close> for an index that is not negative: out of range raises.\<close>

definition py_get :: "'a list \<Rightarrow> nat \<Rightarrow> error + 'a" where
  "py_get xs i = (if i < length xs then Inr (xs ! i) else Inl IndexError)"

definition py_set :: "'a list \<Rightarrow> nat \<Rightarrow> 'a \<Rightarrow> error + 'a list" where
  "py_set xs i v = (if i < length xs then Inr (xs[i := v]) else Inl IndexError)"

text \<open>\<^verbatim>\<open>xs[i] = v\<close> for an index that may be negative: Python counts a negative index
  from the end of the list.\<close>

definition py_set_int :: "'a list \<Rightarrow> int \<Rightarrow> 'a \<Rightarrow> error + 'a list" where
  "py_set_int xs i v =
     (if 0 \<le> i then py_set xs (nat i) v
      else if - i \<le> int (length xs) then Inr (xs[length xs - nat (- i) := v])
      else Inl IndexError)"

text \<open>A loop whose body may raise: the first exception ends it.\<close>

fun efold :: "('a \<Rightarrow> 's \<Rightarrow> error + 's) \<Rightarrow> 'a list \<Rightarrow> 's \<Rightarrow> error + 's" where
  "efold f [] s = Inr s"
| "efold f (x # xs) s = (case f x s of Inl e \<Rightarrow> Inl e | Inr s' \<Rightarrow> efold f xs s')"

text \<open>A list comprehension whose element expression may raise.\<close>

fun emap :: "('a \<Rightarrow> error + 'b) \<Rightarrow> 'a list \<Rightarrow> error + 'b list" where
  "emap f [] = Inr []"
| "emap f (x # xs) =
     (case f x of Inl e \<Rightarrow> Inl e
      | Inr y \<Rightarrow> (case emap f xs of Inl e \<Rightarrow> Inl e | Inr ys \<Rightarrow> Inr (y # ys)))"

text \<open>\<^verbatim>\<open>xs[a:b]\<close> for bounds that are not negative.\<close>

definition slice :: "'a list \<Rightarrow> nat \<Rightarrow> nat \<Rightarrow> 'a list" where
  "slice xs a b = drop a (take b xs)"

text \<open>\<^verbatim>\<open>min(xs)\<close> and \<^verbatim>\<open>max(xs)\<close>: \<^verbatim>\<open>ValueError\<close> on the empty list.\<close>

fun py_min :: "real list \<Rightarrow> error + real" where
  "py_min [] = Inl ValueError"
| "py_min (x # xs) = Inr (fold min xs x)"

fun py_max :: "real list \<Rightarrow> error + real" where
  "py_max [] = Inl ValueError"
| "py_max (x # xs) = Inr (fold max xs x)"

text \<open>\<^verbatim>\<open>int(x)\<close> of a float: the fractional part is dropped, towards zero.\<close>

definition int_of_float :: "real \<Rightarrow> int" where
  "int_of_float x = (if 0 \<le> x then \<lfloor>x\<rfloor> else \<lceil>x\<rceil>)"

text \<open>\<^verbatim>\<open>str(n)\<close> of an integer: its decimal digits, with a minus sign when negative.\<close>

definition digit_char :: "nat \<Rightarrow> char" where
  "digit_char d = ''0123456789'' ! d"

function str_nat :: "nat \<Rightarrow> string" where
  "str_nat n = (if n < 10 then [digit_char n] else str_nat (n div 10) @ [digit_char (n mod 10)])"
  by pat_completeness auto
termination
  by (relation "measure id") auto

declare str_nat.simps [simp del]

definition str_int :: "int \<Rightarrow> string" where
  "str_int i = (if i < 0 then CHR ''-'' # str_nat (nat (- i)) else str_nat (nat i))"

text \<open>\<^verbatim>\<open>s.split(c)\<close> with a one-character separator: never an empty list.\<close>

fun split_on :: "char \<Rightarrow> string \<Rightarrow> string list" where
  "split_on c [] = [[]]"
| "split_on c (x # xs) =
     (if x = c then [] # split_on c xs
      else (case split_on c xs of [] \<Rightarrow> [[x]] | w # ws \<Rightarrow> (x # w) # ws))"

text \<open>\<^verbatim>\<open>s.join(xs)\<close>.\<close>

fun join :: "string \<Rightarrow> string list \<Rightarrow> string" where
  "join s [] = []"
| "join s [x] = x"
| "join s (x # y # ys) = x @ s @ join s (y # ys)"

text \<open>\<^verbatim>\<open>s.rstrip()\<close> and \<^verbatim>\<open>s.strip()\<close>: ASCII white space (space, tab, newline, return,
  vertical tab, form feed) is removed at the end, or at both ends.\<close>

definition is_space :: "char \<Rightarrow> bool" where
  "is_space c = (c \<in> set [CHR '' '', CHR 0x09, CHR 0x0A, CHR 0x0D, CHR 0x0B, CHR 0x0C])"

definition rstrip :: "string \<Rightarrow> string" where
  "rstrip s = rev (dropWhile is_space (rev s))"

definition strip :: "string \<Rightarrow> string" where
  "strip s = rstrip (dropWhile is_space s)"

text \<open>\<^verbatim>\<open>s.replace('"', '')\<close>: every double quote is dropped.\<close>

definition unquote :: "string \<Rightarrow> string" where
  "unquote s = filter (\<lambda>c. c \<noteq> CHR 0x22) s"

definition tab :: char where
  "tab = CHR 0x09"

text \<open>\<^verbatim>\<open>s.upper()\<close> on ASCII letters.\<close>

definition upper_char :: "char \<Rightarrow> char" where
  "upper_char c =
     (let n = (of_char c :: nat) in if 97 \<le> n \<and> n \<le> 122 then char_of (n - 32) else c)"

definition upper :: "string \<Rightarrow> string" where
  "upper s = map upper_char s"

text \<open>\<^verbatim>\<open>sub in s\<close> for strings: \<open>sub\<close> occurs in \<open>s\<close> as a contiguous piece.\<close>

fun starts_with :: "string \<Rightarrow> string \<Rightarrow> bool" where
  "starts_with s [] = True"
| "starts_with [] (p # ps) = False"
| "starts_with (c # cs) (p # ps) = (c = p \<and> starts_with cs ps)"

fun contains :: "string \<Rightarrow> string \<Rightarrow> bool" where
  "contains [] sub = (sub = [])"
| "contains (c # cs) sub = (starts_with (c # cs) sub \<or> contains cs sub)"

text \<open>\<^verbatim>\<open>os.path.basename(p)\<close> on POSIX: what follows the last slash.\<close>

definition basename :: "string \<Rightarrow> string" where
  "basename p = rev (takeWhile (\<lambda>c. c \<noteq> CHR ''/'') (rev p))"

text \<open>\<^verbatim>\<open>os.path.splitext(p)[0]\<close> for a path without a slash: the text before the last
  dot, unless only dots stand before it.\<close>

definition splitext_root :: "string \<Rightarrow> string" where
  "splitext_root p =
     (let ext = takeWhile (\<lambda>c. c \<noteq> CHR ''.'') (rev p);
          root = take (length p - length ext - 1) p
      in if CHR ''.'' \<in> set p \<and> (\<exists>c \<in> set root. c \<noteq> CHR ''.'') then root else p)"

section \<open>The metadata record\<close>

text \<open>
  A CV annotation is a Python dict with the optional keys \<^verbatim>\<open>name\<close>, \<^verbatim>\<open>accession\<close> and
  \<^verbatim>\<open>value\<close>. A field of a metadata record is either such a dict or a dict with the one
  key \<^verbatim>\<open>entry_list\<close>, whose value maps sequence numbers to annotations. A record
  (\<^verbatim>\<open>OrderedDict\<close>) is an association list in insertion order: \<^verbatim>\<open>meta[k] = v\<close> is
  \<^const>\<open>AList.update\<close>, which overwrites in place or appends. The one integer the
  extractor stores (the scan count) stands as its decimal string.
\<close>

record cv =
  cv_name :: "string option"
  cv_accession :: "string option"
  cv_value :: "string option"

datatype field = Plain cv | EntryList "(nat \<times> cv) list"

type_synonym meta = "(string \<times> field) list"

definition cv_of_value :: "string \<Rightarrow> field" where
  "cv_of_value v = Plain \<lparr>cv_name = None, cv_accession = None, cv_value = Some v\<rparr>"

definition cv_of_term :: "string \<Rightarrow> string \<Rightarrow> cv" where
  "cv_of_term acc nm = \<lparr>cv_name = Some nm, cv_accession = Some acc, cv_value = None\<rparr>"

section \<open>Derived fields of the revised extractor (mzml\_2\_isa/mzml.py, derived)\<close>

text \<open>
  The document is what the XPath queries of \<^verbatim>\<open>derived\<close> return, in document order:
  the accession of every spectrum-level \<^verbatim>\<open>cvParam\<close>; accession and \<^verbatim>\<open>float(value)\<close> of
  every scan-window and every scan \<^verbatim>\<open>cvParam\<close> (a finite float is the real number it
  denotes); the \<^verbatim>\<open>count\<close> attributes of the spectrum lists read as integers; the ids of
  the CV list; the names of the source files; and the path of the input file.
\<close>

record mzml_doc =
  sp_cv :: "string list"
  scan_window_cv :: "(string \<times> real) list"
  scan_cv :: "(string \<times> real) list"
  spectrum_counts :: "int list"
  cv_ids :: "string list"
  source_file_names :: "string list"
  in_file :: string

text \<open>The loop over the spectrum-level terms: two flags, each set once its accession is seen.\<close>

fun polarity_flags :: "string list \<Rightarrow> bool \<times> bool \<Rightarrow> bool \<times> bool" where
  "polarity_flags [] (pos, neg) = (pos, neg)"
| "polarity_flags (a # as) (pos, neg) =
     polarity_flags as
       (if a = ''MS:1000130'' then True else pos, if a = ''MS:1000129'' then True else neg)"

definition polarity_of :: "string list \<Rightarrow> string" where
  "polarity_of accs =
     (case polarity_flags accs (False, False) of (pos, neg) \<Rightarrow>
        if pos \<and> neg then ''positive/negative''
        else if pos then ''positive''
        else if neg then ''negative''
        else ''Not determined'')"

text \<open>The loop over the scan-window terms: the low values and the high values, in order.\<close>

fun mz_lists :: "(string \<times> real) list \<Rightarrow> real list \<times> real list" where
  "mz_lists [] = ([], [])"
| "mz_lists ((a, v) # rest) =
     (case mz_lists rest of (lo, hi) \<Rightarrow>
        (if a = ''MS:1000501'' then v # lo else lo, if a = ''MS:1000500'' then v # hi else hi))"

definition mzrange_of :: "(string \<times> real) list \<Rightarrow> error + string" where
  "mzrange_of sw =
     (case mz_lists sw of (minmz_l, maxmz_l) \<Rightarrow>
        ebind (py_min minmz_l) (\<lambda>lo.
        ebind (py_max maxmz_l) (\<lambda>hi.
        Inr (str_int (int_of_float lo) @ '' - '' @ str_int (int_of_float hi)))))"

text \<open>The time range: \<^verbatim>\<open>str(round(x, 4))\<close> is Python's float formatting, taken as the
  parameter \<open>str_round4\<close>.\<close>

definition timerange_of :: "(real \<Rightarrow> string) \<Rightarrow> (string \<times> real) list \<Rightarrow> error + string" where
  "timerange_of str_round4 sc =
     (let time = map snd (filter (\<lambda>(a, v). a = ''MS:1000016'') sc) in
        ebind (py_min time) (\<lambda>lo.
        ebind (py_max time) (\<lambda>hi.
        Inr (str_round4 lo @ '' - '' @ str_round4 hi))))"

text \<open>\<^verbatim>\<open>xs[0]\<close> on the result of a query.\<close>

definition first :: "'a list \<Rightarrow> error + 'a" where
  "first xs = (case xs of [] \<Rightarrow> Inl IndexError | x # _ \<Rightarrow> Inr x)"

definition assign_all :: "(string \<times> field) list \<Rightarrow> meta \<Rightarrow> meta" where
  "assign_all kvs m = fold (\<lambda>(k, v) acc. AList.update k v acc) kvs m"

definition derived :: "(real \<Rightarrow> string) \<Rightarrow> mzml_doc \<Rightarrow> meta \<Rightarrow> error + meta" where
  "derived str_round4 doc m =
     (let polarity = polarity_of (sp_cv doc) in
      ebind (mzrange_of (scan_window_cv doc)) (\<lambda>mzrange.
      ebind (timerange_of str_round4 (scan_cv doc)) (\<lambda>timerange.
      ebind (first (spectrum_counts doc)) (\<lambda>scan_num.
      ebind (first (cv_ids doc)) (\<lambda>cv.
        if \<not> contains cv ''MS'' then Inr m
        else
          ebind (first (source_file_names doc)) (\<lambda>raw_file.
          Inr (assign_all
            [(''Raw Spectral Data File'', cv_of_value raw_file),
             (''MS Assay Name'', cv_of_value (splitext_root (basename raw_file))),
             (''Number of scans'', cv_of_value (str_int scan_num)),
             (''Scan m/z range'', cv_of_value mzrange),
             (''Scan polarity'', cv_of_value polarity),
             (''Time range'', cv_of_value timerange),
             (''Derived Spectral Data File'', cv_of_value (basename (in_file doc)))]
            (AList.update ''term_source'' (cv_of_value ''MS'') m))))))))"

section \<open>The ISA-Tab generator (mzml2isa/isa.py)\<close>

text \<open>
  The default templates (\<^verbatim>\<open>default/a_mzML_parse.txt\<close>, \<^verbatim>\<open>s_mzML_parse.txt\<close> and
  \<^verbatim>\<open>i_Investigation.txt\<close>) are not among the sources: each is a parameter, the list of
  the lines of the file. A cell is a string. A line of the assay template is read by
  \<^verbatim>\<open>x.rstrip().replace('"', '').split('\t')\<close>.
\<close>

definition parse_row :: "string \<Rightarrow> string list" where
  "parse_row x = split_on tab (unquote (rstrip x))"

subsection \<open>update\_row\<close>

text \<open>
  The row is \<^verbatim>\<open>self.new_mass_row\<close>; \<open>main\<close> advances past each cell written. A missing key
  of \<open>meta_val\<close> is the \<^verbatim>\<open>KeyError\<close> the method catches; an index past the end of the row
  is an \<^verbatim>\<open>IndexError\<close> it does not catch.
\<close>

definition update_row :: "nat \<Rightarrow> cv \<Rightarrow> string list \<Rightarrow> error + string list" where
  "update_row main meta_val row =
     ebind (case cv_name meta_val of
              None \<Rightarrow> Inr (row, main)
            | Some nm \<Rightarrow> ebind (py_set row main nm) (\<lambda>r. Inr (r, main + 1)))
       (\<lambda>(row1, main1).
     ebind (case cv_accession meta_val of
              None \<Rightarrow> Inr (row1, main1)
            | Some acc \<Rightarrow>
                ebind (py_set row1 main1 ''MS'') (\<lambda>r.
                ebind (py_set r (main1 + 1) acc) (\<lambda>r'. Inr (r', main1 + 2))))
       (\<lambda>(row2, main2).
     (case cv_value meta_val of None \<Rightarrow> Inr row2 | Some v \<Rightarrow> py_set row2 main2 v)))"

subsection \<open>create\_assay: building the rows\<close>

text \<open>
  The entries of an \<^verbatim>\<open>entry_list\<close> are consumed one at a time into the columns whose header
  equals the key: \<^verbatim>\<open>indices\<close> is reversed and popped from its end, so the columns are taken
  from left to right; an entry that finds no column left is passed over.
\<close>

fun fill_entries :: "nat list \<Rightarrow> (nat \<times> cv) list \<Rightarrow> string list \<Rightarrow> error + string list" where
  "fill_entries indices [] row = Inr row"
| "fill_entries [] (e # es) row = fill_entries [] es row"
| "fill_entries (main # indices) ((meta_id, meta_val) # es) row =
     (case update_row main meta_val row of
        Inl err \<Rightarrow> Inl err
      | Inr row' \<Rightarrow> fill_entries indices es row')"

text \<open>
  What the loop over the records carries: \<^verbatim>\<open>pre_row\<close>, \<^verbatim>\<open>self.new_mass_row\<close>,
  \<^verbatim>\<open>self.sample_names\<close> and \<^verbatim>\<open>full_row\<close>. All four are set before the loop and none is
  reset inside it.
\<close>

record assay_state =
  st_pre_row :: "string list"
  st_new_mass_row :: "string list"
  st_sample_names :: "string list"
  st_full_row :: "string list list"

text \<open>The body of the loop over the items of one record.\<close>

definition process_field ::
  "string list \<Rightarrow> nat \<Rightarrow> string \<times> field \<Rightarrow> assay_state \<Rightarrow> error + assay_state" where
  "process_field mass_headers sample_name_idx kv st =
     (case kv of (key, fld) \<Rightarrow>
      ebind (if key = ''Sample Name''
             then (case fld of
                     Plain c \<Rightarrow>
                       (case cv_value c of
                          None \<Rightarrow> Inl KeyError
                        | Some v \<Rightarrow>
                            ebind (py_set (st_pre_row st) sample_name_idx v) (\<lambda>p.
                            Inr (st\<lparr>st_pre_row := p, st_sample_names := st_sample_names st @ [v]\<rparr>)))
                   | EntryList es \<Rightarrow> Inl KeyError)
             else Inr st)
        (\<lambda>st1.
      (case fld of
         EntryList es \<Rightarrow>
           ebind (fill_entries
                    (filter (\<lambda>i. mass_headers ! i = key) [0 ..< length mass_headers])
                    es (st_new_mass_row st1))
             (\<lambda>r. Inr (st1\<lparr>st_new_mass_row := r\<rparr>))
       | Plain c \<Rightarrow>
           (case index_of mass_headers key of
              None \<Rightarrow> Inr st1
            | Some main \<Rightarrow>
                ebind (update_row main c (st_new_mass_row st1))
                  (\<lambda>r. Inr (st1\<lparr>st_new_mass_row := r\<rparr>))))))"

text \<open>The body of the loop over the records: all items, then the completed row is appended.\<close>

definition process_record ::
  "string list \<Rightarrow> nat \<Rightarrow> string list \<Rightarrow> meta \<Rightarrow> assay_state \<Rightarrow> error + assay_state" where
  "process_record mass_headers sample_name_idx post_row file_meta st =
     ebind (efold (process_field mass_headers sample_name_idx) file_meta st) (\<lambda>st1.
     Inr (st1\<lparr>st_full_row := st_full_row st1 @ [st_pre_row st1 @ st_new_mass_row st1 @ post_row]\<rparr>))"

definition build_rows ::
  "string list \<Rightarrow> string list \<Rightarrow> nat \<Rightarrow> nat \<Rightarrow> nat \<Rightarrow> meta list \<Rightarrow> error + assay_state" where
  "build_rows headers_row standard_row sample_name_idx mass_protocol_idx mass_end_idx metalist =
     (let mass_headers = slice headers_row (mass_protocol_idx + 1) mass_end_idx;
          post_row = drop mass_end_idx standard_row
      in efold (process_record mass_headers sample_name_idx post_row) metalist
           \<lparr>st_pre_row = take (mass_protocol_idx + 1) standard_row,
            st_new_mass_row = replicate (length mass_headers) '''',
            st_sample_names = [],
            st_full_row = []\<rparr>)"

subsection \<open>remove\_blank\_columns\<close>

definition column_blank :: "string list list \<Rightarrow> nat \<Rightarrow> error + bool" where
  "column_blank full_row i =
     ebind (emap (\<lambda>col. py_get col i) full_row) (\<lambda>column.
     Inr (count_list column '''' = length full_row))"

fun blank_columns :: "string list list \<Rightarrow> nat list \<Rightarrow> error + nat list" where
  "blank_columns full_row [] = Inr []"
| "blank_columns full_row (i # rest) =
     (case column_blank full_row i of
        Inl e \<Rightarrow> Inl e
      | Inr b \<Rightarrow>
          (case blank_columns full_row rest of
             Inl e \<Rightarrow> Inl e
           | Inr delete_cols \<Rightarrow> Inr (if b then i # delete_cols else delete_cols)))"

definition delete_at :: "nat list \<Rightarrow> 'a list \<Rightarrow> 'a list" where
  "delete_at delete_cols row =
     map snd (filter (\<lambda>(i, item). i \<notin> set delete_cols) (enumerate 0 row))"

definition remove_blank_columns ::
  "nat \<Rightarrow> nat \<Rightarrow> string list list \<Rightarrow> string list \<Rightarrow> error + (string list \<times> string list list)" where
  "remove_blank_columns start end_idx full_row headers_row =
     ebind (blank_columns full_row [start ..< end_idx - 3]) (\<lambda>delete_cols.
     Inr (delete_at delete_cols headers_row, map (delete_at delete_cols) full_row))"

subsection \<open>create\_assay: writing the files\<close>

text \<open>
  A written file is its name, its header row and its data rows, as handed to the CSV
  writer. The file names are those of \<^verbatim>\<open>isa_env\<close>, for a study name without braces.
\<close>

record assay_file =
  af_name :: string
  af_header :: "string list"
  af_rows :: "string list list"

definition assay_file_name :: "string \<Rightarrow> string" where
  "assay_file_name name = ''a_'' @ name @ ''_metabolite_profiling_mass_spectrometry.txt''"

definition assay_polar_file_name :: "string \<Rightarrow> string \<Rightarrow> string" where
  "assay_polar_file_name name pol =
     ''a_'' @ name @ ''_metabolite_profiling_mass_spectrometry_'' @ pol @ ''.txt''"

definition data_tran_idx :: "string list \<Rightarrow> error + int" where
  "data_tran_idx headers_row =
     ebind (py_index headers_row ''Derived Spectral Data File'') (\<lambda>i. Inr (int i - 2))"

text \<open>
  One turn of the loop over the polarities: the rows whose cell at \<open>polarity_idx\<close> equals
  the polarity are selected, then each selected row is updated in place and written. The
  rows are shared with \<^verbatim>\<open>full_row\<close>, so the update is seen by the turns that follow.
\<close>

definition write_polarity ::
  "string \<Rightarrow> string list \<Rightarrow> nat \<Rightarrow> string
     \<Rightarrow> string list list \<times> assay_file list \<times> string list
     \<Rightarrow> error + (string list list \<times> assay_file list \<times> string list)" where
  "write_polarity name headers_row polarity_idx polarity st =
     (case st of (full_row, files, written) \<Rightarrow>
      ebind (emap (\<lambda>x. ebind (py_get x polarity_idx) (\<lambda>p. Inr (p = polarity))) full_row)
        (\<lambda>sel.
      ebind (data_tran_idx headers_row) (\<lambda>d.
      ebind (emap (\<lambda>(s, row). if s then py_set_int row d ''Data transformation'' else Inr row)
               (zip sel full_row))
        (\<lambda>full_row'.
      Inr (full_row',
           files @ [\<lparr>af_name = assay_polar_file_name name (upper (take 3 polarity)),
                     af_header = headers_row,
                     af_rows = map snd (filter fst (zip sel full_row'))\<rparr>],
           written @ [assay_polar_file_name name (upper (take 3 polarity))])))))"

text \<open>
  \<^verbatim>\<open>polarities\<close> is a Python set, whose iteration order is not specified; the model
  iterates in the order of \<^const>\<open>remdups\<close>.
\<close>

definition write_assays ::
  "string \<Rightarrow> string list \<Rightarrow> string list list \<Rightarrow> nat \<Rightarrow> bool
     \<Rightarrow> error + (assay_file list \<times> string list)" where
  "write_assays name headers_row full_row polarity_idx separate_polarity =
     ebind (emap (\<lambda>x. py_get x polarity_idx) full_row) (\<lambda>column.
     (let polarities = remdups column in
      if length polarities = 1 \<or> \<not> separate_polarity
      then
        ebind (data_tran_idx headers_row) (\<lambda>d.
        ebind (emap (\<lambda>row. py_set_int row d ''Data transformation'') full_row) (\<lambda>rows.
        Inr ([\<lparr>af_name = assay_file_name name, af_header = headers_row, af_rows = rows\<rparr>],
             [assay_file_name name])))
      else
        ebind (efold (write_polarity name headers_row polarity_idx) polarities (full_row, [], []))
          (\<lambda>(full_row', files, written). Inr (files, written))))"

subsection \<open>create\_assay\<close>

record assay_result =
  res_sample_names :: "string list"
  res_written_assays :: "string list"
  res_files :: "assay_file list"

definition create_assay_rows ::
  "string \<Rightarrow> string list \<Rightarrow> string list \<Rightarrow> meta list \<Rightarrow> bool \<Rightarrow> error + assay_result" where
  "create_assay_rows name headers_row standard_row metalist separate_polarity =
     ebind (py_index headers_row ''Sample Name'') (\<lambda>sample_name_idx.
     ebind (py_index standard_row ''Mass spectrometry'') (\<lambda>mass_protocol_idx.
     ebind (py_index standard_row ''Metabolite identification'') (\<lambda>mass_end_idx.
     ebind (py_index headers_row ''Parameter Value[Scan polarity]'') (\<lambda>polarity_idx.
     ebind (build_rows headers_row standard_row sample_name_idx mass_protocol_idx mass_end_idx
              metalist) (\<lambda>st.
     ebind (remove_blank_columns mass_protocol_idx mass_end_idx (st_full_row st) headers_row)
       (\<lambda>(headers_row', full_row').
     ebind (write_assays name headers_row' full_row' polarity_idx separate_polarity)
       (\<lambda>(files, written).
     Inr \<lparr>res_sample_names = st_sample_names st,
          res_written_assays = written,
          res_files = files\<rparr>)))))))"

text \<open>The template must have exactly two lines: the header and the standard row.\<close>

definition create_assay ::
  "string \<Rightarrow> string list \<Rightarrow> meta list \<Rightarrow> bool \<Rightarrow> error + assay_result" where
  "create_assay name template metalist separate_polarity =
     (case map parse_row template of
        [headers_row, standard_row] \<Rightarrow>
          create_assay_rows name headers_row standard_row metalist separate_polarity
      | _ \<Rightarrow> Inl ValueError)"

subsection \<open>create\_investigation\<close>

text \<open>
  The placeholder substitution \<^verbatim>\<open>l.format(**isa_env, **usermeta).format()\<close> is the
  parameter \<open>render\<close>; on a line without braces it returns the line.
\<close>

definition expand_line :: "string list \<Rightarrow> string \<Rightarrow> error + string" where
  "expand_line written_assays l =
     (if take 11 l = ''Study Assay'' \<and> length written_assays \<noteq> 1
      then
        (let assay_row = split_on tab l in
         ebind (py_get assay_row 0) (\<lambda>head.
         ebind (if head = ''Study Assay File Name''
                then Inr (head @ concat (map (\<lambda>assay. [tab, CHR 0x22] @ assay @ [CHR 0x22])
                                          written_assays))
                else ebind (py_get assay_row 1) (\<lambda>second.
                     Inr (head @ [tab]
                          @ join [tab] (replicate (length written_assays) (strip second)))))
           (\<lambda>l'. Inr (l' @ [CHR 0x0A]))))
      else Inr l)"

definition create_investigation ::
  "(string \<Rightarrow> error + string) \<Rightarrow> string list \<Rightarrow> string list \<Rightarrow> error + string list" where
  "create_investigation render template written_assays =
     emap (\<lambda>l. ebind (expand_line written_assays l) render) template"

subsection \<open>create\_study\<close>

text \<open>
  The substitution of the sample name and the user's fields into the default line,
  \<^verbatim>\<open>default_line.format(name=sample_name, **usermeta)\<close>, is the parameter \<open>render_row\<close>.
  The result is the rows handed to the CSV writer, the header first.
\<close>

definition create_study ::
  "(string \<Rightarrow> string \<Rightarrow> error + string) \<Rightarrow> string list \<Rightarrow> string list
     \<Rightarrow> error + string list list" where
  "create_study render_row template sample_names_in =
     (case map (\<lambda>x. unquote (rstrip x)) template of
        [headers_line, default_line] \<Rightarrow>
          ebind (emap (\<lambda>sample_name.
                   ebind (render_row default_line sample_name) (\<lambda>l. Inr (split_on tab l)))
                 sample_names_in) (\<lambda>rows.
          Inr (split_on tab headers_line # rows))
      | _ \<Rightarrow> Inl ValueError)"

section \<open>The revised extractor (mzml\_2\_isa/mzml.py)\<close>

subsection \<open>isa\_tab\_compatible\<close>

text \<open>
  The loop runs over the keys of \<^verbatim>\<open>self.meta\<close> in insertion order and fills
  \<^verbatim>\<open>self.meta_isa\<close>, which the constructor set to an empty \<^verbatim>\<open>OrderedDict\<close>.
\<close>

definition keep :: "string list" where
  "keep = [''data transformation'', ''data transformation software version'',
           ''data transformation software'', ''term_source'', ''Raw Spectral Data File'',
           ''MS Assay Name'']"

definition isa_tab_compatible :: "meta \<Rightarrow> meta" where
  "isa_tab_compatible m =
     fold (\<lambda>(meta_name, v) meta_isa.
             if meta_name \<in> set keep then AList.update meta_name v meta_isa
             else AList.update (''Parameter Value['' @ meta_name @ '']'') v meta_isa)
          m []"

subsection \<open>cvParam\_loop\<close>

text \<open>
  A \<^verbatim>\<open>cvParam\<close> element is its tag, its \<^verbatim>\<open>accession\<close> and \<^verbatim>\<open>name\<close> attributes, its optional
  \<^verbatim>\<open>value\<close> attribute and the optional \<^verbatim>\<open>softwareRef\<close> attribute of its parent; reading an
  absent attribute raises \<^verbatim>\<open>KeyError\<close>. A rule is the dict of five entries the constructor
  gives for a term. A software element is its \<^verbatim>\<open>id\<close>, its \<^verbatim>\<open>version\<close> and accession and name
  of each \<^verbatim>\<open>cvParam\<close> child. The ontology parser is not among the sources:
  \<^verbatim>\<open>self.obo.getDescendents\<close> is the parameter \<open>getDescendents\<close>.
\<close>

record cv_param =
  e_tag :: string
  e_accession :: string
  e_name :: string
  e_value :: "string option"
  e_software_ref :: "string option"

record term_rule =
  r_attribute :: bool
  r_name :: string
  r_plus1 :: bool
  r_value :: bool
  r_soft :: bool

record software_elem =
  sw_id :: string
  sw_version :: string
  sw_cv :: "(string \<times> string) list"

text \<open>
  \<^verbatim>\<open>software\<close>: the two versions of the extractor differ in the suffixes of the keys only,
  \<^verbatim>\<open>' software version'\<close> and \<^verbatim>\<open>' software'\<close> in the revised one,
  \<^verbatim>\<open>'_software_version'\<close> and \<^verbatim>\<open>'_software'\<close> in the first one.
\<close>

definition software_elem_step ::
  "string \<Rightarrow> string \<Rightarrow> string \<Rightarrow> string \<Rightarrow> software_elem \<Rightarrow> meta \<Rightarrow> meta" where
  "software_elem_step version_sfx software_sfx soft_ref name e m =
     (if sw_id e = soft_ref
      then fold (\<lambda>(acc, nm) m'. AList.update (name @ software_sfx) (Plain (cv_of_term acc nm)) m')
             (sw_cv e)
             (if sw_version e \<noteq> []
              then AList.update (name @ version_sfx) (cv_of_value (sw_version e)) m
              else m)
      else m)"

definition software_with ::
  "string \<Rightarrow> string \<Rightarrow> software_elem list \<Rightarrow> string \<Rightarrow> string \<Rightarrow> meta \<Rightarrow> meta" where
  "software_with version_sfx software_sfx elements soft_ref name m =
     fold (software_elem_step version_sfx software_sfx soft_ref name) elements m"

definition software :: "software_elem list \<Rightarrow> string \<Rightarrow> string \<Rightarrow> meta \<Rightarrow> meta" where
  "software = software_with '' software version'' '' software''"

definition annotation :: "cv_param \<Rightarrow> cv" where
  "annotation e = cv_of_term (e_accession e) (e_name e)"

text \<open>The entries already stored under a key: none when the key is absent or holds a plain
  annotation (the \<^verbatim>\<open>KeyError\<close> the loop catches).\<close>

definition entries_of :: "meta \<Rightarrow> string \<Rightarrow> (nat \<times> cv) list" where
  "entries_of m k = (case map_of m k of Some (EntryList es) \<Rightarrow> es | _ \<Rightarrow> [])"

text \<open>The body of \<^verbatim>\<open>cvParam_loop\<close> for an element that matches a rule; the state is
  \<^verbatim>\<open>self.meta\<close> and the counter \<^verbatim>\<open>c\<close>.\<close>

definition record_match ::
  "software_elem list \<Rightarrow> term_rule \<Rightarrow> cv_param \<Rightarrow> meta \<times> nat \<Rightarrow> error + (meta \<times> nat)" where
  "record_match softwares info e st =
     (case st of (m, c) \<Rightarrow>
      (let meta_name = (if r_attribute info then e_tag e else r_name info) in
       ebind
         (if r_plus1 info
          then
            (let es = AList.update c (annotation e) (entries_of m meta_name);
                 m1 = AList.update meta_name (EntryList es) m
             in ebind
                  (if r_value info
                   then (case e_value e of
                           None \<Rightarrow> Inl KeyError
                         | Some v \<Rightarrow>
                             Inr (AList.update meta_name
                                    (EntryList
                                       (AList.update c ((annotation e)\<lparr>cv_value := Some v\<rparr>) es))
                                    m1))
                   else Inr m1)
                  (\<lambda>m2. Inr (m2, c + 1)))
          else
            (let m1 = AList.update meta_name (Plain (annotation e)) m
             in ebind
                  (if r_value info
                   then (case e_value e of
                           None \<Rightarrow> Inl KeyError
                         | Some v \<Rightarrow>
                             Inr (AList.update meta_name
                                    (Plain ((annotation e)\<lparr>cv_value := Some v\<rparr>)) m1))
                   else Inr m1)
                  (\<lambda>m2. Inr (m2, c))))
         (\<lambda>(m2, c2).
            if r_soft info
            then (case e_software_ref e of
                    None \<Rightarrow> Inl KeyError
                  | Some soft_ref \<Rightarrow> Inr (software softwares soft_ref meta_name m2, c2))
            else Inr (m2, c2))))"

text \<open>The rules of a location are a dict; the list gives its items in iteration order.\<close>

definition cvParam_loop ::
  "(string \<Rightarrow> string list) \<Rightarrow> software_elem list \<Rightarrow> (string \<times> term_rule) list
     \<Rightarrow> cv_param list \<Rightarrow> meta \<Rightarrow> error + meta" where
  "cvParam_loop getDescendents softwares rules elements m =
     ebind
       (efold (\<lambda>e. efold (\<lambda>(accession, info) st.
                             if e_accession e \<in> set (getDescendents accession)
                             then record_match softwares info e st
                             else Inr st) rules)
          elements (m, 1))
       (\<lambda>(m', c). Inr m')"

section \<open>The first extractor (isa\_mzML.py)\<close>

definition software_legacy :: "software_elem list \<Rightarrow> string \<Rightarrow> string \<Rightarrow> meta \<Rightarrow> meta" where
  "software_legacy = software_with ''_software_version'' ''_software''"

definition record_match_legacy ::
  "software_elem list \<Rightarrow> term_rule \<Rightarrow> cv_param \<Rightarrow> meta \<times> nat \<Rightarrow> error + (meta \<times> nat)" where
  "record_match_legacy softwares info e st =
     (case st of (m, c) \<Rightarrow>
      (case (if r_attribute info \<and> r_plus1 info then (e_tag e @ str_nat c, c + 1)
             else if r_attribute info then (e_tag e, c)
             else if r_plus1 info then (r_name info @ str_nat c, c + 1)
             else (r_name info, c)) of
         (meta_name, c1) \<Rightarrow>
           (let m1 = AList.update meta_name (Plain (annotation e)) m in
            ebind
              (if r_value info
               then (case e_value e of
                       None \<Rightarrow> Inl KeyError
                     | Some v \<Rightarrow>
                         Inr (AList.update meta_name
                                (Plain ((annotation e)\<lparr>cv_value := Some v\<rparr>)) m1))
               else Inr m1)
              (\<lambda>m2.
                 if r_soft info
                 then (case e_software_ref e of
                         None \<Rightarrow> Inl KeyError
                       | Some soft_ref \<Rightarrow>
                           Inr (software_legacy softwares soft_ref meta_name m2, c1))
                 else Inr (m2, c1)))))"

definition cvParam_loop_legacy ::
  "(string \<Rightarrow> string list) \<Rightarrow> software_elem list \<Rightarrow> (string \<times> term_rule) list
     \<Rightarrow> cv_param list \<Rightarrow> meta \<Rightarrow> error + meta" where
  "cvParam_loop_legacy getDescendents softwares rules elements m =
     ebind
       (efold (\<lambda>e. efold (\<lambda>(accession, info) st.
                             if e_accession e \<in> set (getDescendents accession)
                             then record_match_legacy softwares info e st
                             else Inr st) rules)
          elements (m, 1))
       (\<lambda>(m', c). Inr m')"

subsection \<open>The assay updater (isa\_assay\_file)\<close>

text \<open>
  The assay file is the list of its lines. The six column lookups stand in one
  \<^verbatim>\<open>try\<close> block in this order; the first one that fails is printed and ends the block, so
  the index variables after it stay unbound. \<open>locate\<close> returns the indices that were bound,
  in order, and the name that was not found, if any.
\<close>

definition expected_columns :: "string list" where
  "expected_columns =
     [''Parameter Value[Scan polarity]'', ''Parameter Value[Scan m/z range]'',
      ''Parameter Value[Instrument]'', ''Parameter Value[Ion source]'',
      ''Parameter Value[Mass analyzer]'', ''Raw Spectral Data File'']"

fun locate :: "string list \<Rightarrow> nat \<Rightarrow> string list \<Rightarrow> nat list \<times> string list" where
  "locate head_short adj [] = ([], [])"
| "locate head_short adj (n # ns) =
     (case index_of head_short n of
        None \<Rightarrow> ([], [n])
      | Some i \<Rightarrow> (case locate head_short adj ns of (found, diag) \<Rightarrow> ((i + adj) # found, diag)))"

text \<open>
  What the first loop leaves behind: \<^verbatim>\<open>headers_l\<close> and \<^verbatim>\<open>standard_row\<close> (unbound when the
  file has no such line), the bound column indices and the printed diagnostics. A standard
  row without "Mass spectrometry" raises \<^verbatim>\<open>ValueError\<close> outside the \<^verbatim>\<open>try\<close> block.
\<close>

record assay_read =
  rd_headers_l :: "string list option"
  rd_standard_row :: "string list option"
  rd_indices :: "nat list"
  rd_printed :: "string list"

definition read_assay :: "string list \<Rightarrow> error + assay_read" where
  "read_assay file_lines =
     (case map (\<lambda>line. split_on tab (unquote line)) file_lines of
        [] \<Rightarrow> Inr \<lparr>rd_headers_l = None, rd_standard_row = None, rd_indices = [],
                   rd_printed = []\<rparr>
      | [headers_l] \<Rightarrow>
          Inr \<lparr>rd_headers_l = Some headers_l, rd_standard_row = None, rd_indices = [],
               rd_printed = []\<rparr>
      | headers_l # standard_row # rest \<Rightarrow>
          ebind (py_index standard_row ''Mass spectrometry'') (\<lambda>mass_protocol_idx.
          (case locate (drop (mass_protocol_idx + 1) headers_l) (mass_protocol_idx + 1)
                  expected_columns of
             (found, diag) \<Rightarrow>
               Inr \<lparr>rd_headers_l = Some headers_l, rd_standard_row = Some standard_row,
                    rd_indices = found, rd_printed = diag\<rparr>)))"

text \<open>
  The twelve assignments of the second loop, in order: the index variable (its position
  among the six), the offset added to it, and the two keys read from the record. In
  \<^verbatim>\<open>current_row[idx + k] = file[a][b]\<close> Python reads the record first (\<^verbatim>\<open>KeyError\<close>), then
  the index variable (\<^verbatim>\<open>NameError\<close> when unbound), then stores (\<^verbatim>\<open>IndexError\<close>).
\<close>

datatype cv_key = NameKey | AccessionKey | ValueKey

definition assignments :: "(nat \<times> nat \<times> string \<times> cv_key) list" where
  "assignments =
     [(0, 0, ''polarity'', ValueKey),
      (1, 0, ''mzrange'', ValueKey),
      (2, 0, ''instrument_manufacturer'', NameKey),
      (2, 1, ''term_source'', ValueKey),
      (2, 2, ''instrument_manufacturer'', AccessionKey),
      (3, 0, ''ionization_type'', NameKey),
      (3, 1, ''term_source'', ValueKey),
      (3, 2, ''ionization_type'', AccessionKey),
      (4, 0, ''detector_type'', NameKey),
      (4, 1, ''term_source'', ValueKey),
      (4, 2, ''detector_type'', AccessionKey),
      (5, 0, ''raw_data_file'', ValueKey)]"

definition read_field :: "meta \<Rightarrow> string \<Rightarrow> cv_key \<Rightarrow> error + string" where
  "read_field file k1 k2 =
     (case map_of file k1 of
        Some (Plain c) \<Rightarrow>
          (case (case k2 of NameKey \<Rightarrow> cv_name c | AccessionKey \<Rightarrow> cv_accession c
                 | ValueKey \<Rightarrow> cv_value c) of
             None \<Rightarrow> Inl KeyError
           | Some v \<Rightarrow> Inr v)
      | _ \<Rightarrow> Inl KeyError)"

definition assign_cell ::
  "meta \<Rightarrow> nat list \<Rightarrow> nat \<times> nat \<times> string \<times> cv_key \<Rightarrow> string list \<Rightarrow> error + string list" where
  "assign_cell file indices a current_row =
     (case a of (j, off, k1, k2) \<Rightarrow>
      ebind (read_field file k1 k2) (\<lambda>v.
      if j < length indices then py_set current_row (indices ! j + off) v
      else Inl NameError))"

text \<open>
  The loop over the records. \<^verbatim>\<open>current_row = standard_row\<close> binds the same list each time,
  so a row starts from the cells of the row before it. The result is the rows handed to
  the writer so far and the exception that ended the loop, if any.
\<close>

fun write_rows ::
  "nat list \<Rightarrow> meta list \<Rightarrow> string list \<Rightarrow> string list list
     \<Rightarrow> string list list \<times> error option" where
  "write_rows indices [] current_row written = (written, None)"
| "write_rows indices (file # rest) current_row written =
     (case efold (assign_cell file indices) assignments current_row of
        Inl e \<Rightarrow> (written, Some e)
      | Inr row \<Rightarrow> write_rows indices rest row (written @ [row]))"

record assay_update =
  up_rows :: "string list list"
  up_printed :: "string list"
  up_error :: "error option"

definition isa_assay_file :: "string list \<Rightarrow> meta list \<Rightarrow> assay_update" where
  "isa_assay_file file_lines metalist =
     (case read_assay file_lines of
        Inl e \<Rightarrow> \<lparr>up_rows = [], up_printed = [], up_error = Some e\<rparr>
      | Inr rd \<Rightarrow>
          (case rd_headers_l rd of
             None \<Rightarrow> \<lparr>up_rows = [], up_printed = rd_printed rd, up_error = Some NameError\<rparr>
           | Some headers_l \<Rightarrow>
               (if metalist = []
                then \<lparr>up_rows = [headers_l], up_printed = rd_printed rd, up_error = None\<rparr>
                else
                  (case rd_standard_row rd of
                     None \<Rightarrow> \<lparr>up_rows = [headers_l], up_printed = rd_printed rd,
                               up_error = Some NameError\<rparr>
                   | Some standard_row \<Rightarrow>
                       (case write_rows (rd_indices rd) metalist standard_row [headers_l] of
                          (written, err) \<Rightarrow>
                            \<lparr>up_rows = written, up_printed = rd_printed rd,
                             up_error = err\<rparr>)))))"

section \<open>Example inputs\<close>

text \<open>
  An assay template of thirteen columns: the sample, the mass spectrometry protocol column,
  the MS block of nine columns (an instrument triple, the polarity, two names and the three
  housekeeping columns) and the metabolite identification columns.
\<close>

definition example_header :: "string list" where
  "example_header =
     [''Sample Name'', ''Protocol REF'', ''Parameter Value[Instrument]'', ''Term Source REF'',
      ''Term Accession Number'', ''Parameter Value[Scan polarity]'', ''MS Assay Name'',
      ''Raw Spectral Data File'', ''Protocol REF'', ''Normalization Name'',
      ''Derived Spectral Data File'', ''Protocol REF'', ''Metabolite Assignment File'']"

definition example_standard_row :: "string list" where
  "example_standard_row =
     [''sample'', ''Mass spectrometry'', '''', '''', '''', '''', '''', '''',
      ''Data transformation'', '''', '''', ''Metabolite identification'', ''m_maf.tsv'']"

definition example_assay_template :: "string list" where
  "example_assay_template =
     map (\<lambda>cells. join [tab] cells @ [CHR 0x0A]) [example_header, example_standard_row]"

text \<open>Raw records of three files: one names its instrument, two do not.\<close>

definition raw_qe_pos :: meta where
  "raw_qe_pos =
     [(''Instrument'', Plain (cv_of_term ''MS:1001911'' ''Q Exactive'')),
      (''MS Assay Name'', cv_of_value ''runA''),
      (''Scan polarity'', cv_of_value ''positive'')]"

definition raw_plain_pos :: meta where
  "raw_plain_pos =
     [(''MS Assay Name'', cv_of_value ''runC''),
      (''Scan polarity'', cv_of_value ''positive'')]"

definition raw_plain_neg :: meta where
  "raw_plain_neg =
     [(''MS Assay Name'', cv_of_value ''runB''),
      (''Scan polarity'', cv_of_value ''negative'')]"

text \<open>An investigation template of three lines and a study template of two.\<close>

definition example_investigation :: "string list" where
  "example_investigation =
     [''Study Title'' @ [tab] @ ''A study'' @ [CHR 0x0A],
      ''Study Assay Measurement Type'' @ [tab] @ ''metabolite profiling'' @ [CHR 0x0A],
      ''Study Assay File Name'' @ [tab] @ ''a_x.txt'' @ [CHR 0x0A]]"

definition example_study :: "string list" where
  "example_study =
     [''Source Name'' @ [tab] @ ''Sample Name'' @ [CHR 0x0A],
      ''source'' @ [tab] @ ''{name}'' @ [CHR 0x0A]]"

text \<open>
  Two rule tables of the constructors, in source order: the revised extractor's rules for
  the location \<^verbatim>\<open>ionization\<close> and the first extractor's rules for \<^verbatim>\<open>file_content\<close>; an
  ontology in which "source potential" (MS:1000486) descends from MS:1000482 and the two
  spectrum types MS:1000579 and MS:1000580 descend from MS:1000524.
\<close>

definition terms_ionization :: "(string \<times> term_rule) list" where
  "terms_ionization =
     [(''MS:1000482'', \<lparr>r_attribute = True, r_name = ''source_attribute'', r_plus1 = True,
                         r_value = True, r_soft = False\<rparr>),
      (''MS:1000008'', \<lparr>r_attribute = False, r_name = ''Ion source'', r_plus1 = False,
                         r_value = False, r_soft = False\<rparr>),
      (''MS:1000007'', \<lparr>r_attribute = False, r_name = ''Inlet type'', r_plus1 = False,
                         r_value = False, r_soft = False\<rparr>)]"

definition terms_file_content_legacy :: "(string \<times> term_rule) list" where
  "terms_file_content_legacy =
     [(''MS:1000524'', \<lparr>r_attribute = False, r_name = ''data_file_content'', r_plus1 = True,
                         r_value = False, r_soft = False\<rparr>),
      (''MS:1000525'', \<lparr>r_attribute = False, r_name = ''spectrum_representation'',
                         r_plus1 = False, r_value = False, r_soft = False\<rparr>)]"

definition example_descendents :: "string \<Rightarrow> string list" where
  "example_descendents k =
     (if k = ''MS:1000482'' then [k, ''MS:1000486'']
      else if k = ''MS:1000524'' then [k, ''MS:1000579'', ''MS:1000580'']
      else [k])"

definition cv_tag :: string where
  "cv_tag = ''{http://psi.hupo.org/ms/mzml}cvParam''"

definition source_potential :: "string \<Rightarrow> cv_param" where
  "source_potential v =
     \<lparr>e_tag = cv_tag, e_accession = ''MS:1000486'', e_name = ''source potential'',
      e_value = Some v, e_software_ref = None\<rparr>"

definition spectrum_type :: "string \<Rightarrow> string \<Rightarrow> cv_param" where
  "spectrum_type acc nm =
     \<lparr>e_tag = cv_tag, e_accession = acc, e_name = nm, e_value = None,
      e_software_ref = None\<rparr>"

text \<open>
  An assay file for the updater, with and without the "Parameter Value[Scan m/z range]"
  column, and the record of one file as the first extractor names its fields.
\<close>

definition legacy_header :: "bool \<Rightarrow> string list" where
  "legacy_header with_mzrange =
     [''Sample Name'', ''Protocol REF'', ''Parameter Value[Scan polarity]'']
     @ (if with_mzrange then [''Parameter Value[Scan m/z range]''] else [])
     @ [''Parameter Value[Instrument]'', ''Term Source REF'', ''Term Accession Number'',
        ''Parameter Value[Ion source]'', ''Term Source REF'', ''Term Accession Number'',
        ''Parameter Value[Mass analyzer]'', ''Term Source REF'', ''Term Accession Number'',
        ''Raw Spectral Data File'', ''Protocol REF'']"

definition legacy_standard_row :: "bool \<Rightarrow> string list" where
  "legacy_standard_row with_mzrange =
     [''s1'', ''Mass spectrometry'', ''p'']
     @ (if with_mzrange then [''r''] else [])
     @ [''i'', ''i1'', ''i2'', ''s'', ''s1'', ''s2'', ''d'', ''d1'', ''d2'', ''raw'',
        ''Data transformation'']"

definition legacy_assay_file :: "bool \<Rightarrow> string list" where
  "legacy_assay_file with_mzrange =
     map (\<lambda>cells. join [tab] cells @ [CHR 0x0A])
       [legacy_header with_mzrange, legacy_standard_row with_mzrange]"

definition legacy_record :: meta where
  "legacy_record =
     [(''ionization_type'', Plain (cv_of_term ''MS:1000073'' ''electrospray ionization'')),
      (''detector_type'', Plain (cv_of_term ''MS:1000484'' ''orbitrap'')),
      (''instrument_manufacturer'', Plain (cv_of_term ''MS:1000494'' ''Thermo Scientific'')),
      (''term_source'', cv_of_value ''MS''),
      (''raw_data_file'', cv_of_value ''run1.raw''),
      (''mzrange'', cv_of_value ''50 - 500''),
      (''polarity'', cv_of_value ''positive'')]"

text \<open>
  A document with both polarities among its spectrum-level terms and the scan windows of
  the specification's example: lows 50.0 and 55.2, highs 500.7 and 499.9.
\<close>

definition example_doc :: mzml_doc where
  "example_doc =
     \<lparr>sp_cv = [''MS:1000130'', ''MS:1000511'', ''MS:1000129''],
      scan_window_cv = [(''MS:1000501'', 50), (''MS:1000500'', 5007/10),
                        (''MS:1000501'', 552/10), (''MS:1000500'', 4999/10)],
      scan_cv = [(''MS:1000016'', 23/10000)],
      spectrum_counts = [1], cv_ids = [''MS''], source_file_names = [''run1.raw''],
      in_file = ''/data/run1.mzML''\<rparr>"

definition example_meta :: meta where
  "example_meta =
     [(''term_source'', cv_of_value ''MS''),
      (''Raw Spectral Data File'', cv_of_value ''run1.raw''),
      (''MS Assay Name'', cv_of_value ''run1''),
      (''Number of scans'', cv_of_value ''1''),
      (''Scan m/z range'', cv_of_value ''50 - 500''),
      (''Scan polarity'', cv_of_value ''positive/negative''),
      (''Time range'', cv_of_value ''t - t''),
      (''Derived Spectral Data File'', cv_of_value ''run1.mzML'')]"

section \<open>Properties of the derived fields\<close>

lemma polarity_flags_set:
  "polarity_flags accs (p, n) =
     (p \<or> ''MS:1000130'' \<in> set accs, n \<or> ''MS:1000129'' \<in> set accs)"
  by (induction accs arbitrary: p n) auto

lemma map_of_assign_all:
  "map_of (assign_all kvs m) = fold (\<lambda>(k, v) f. f(k \<mapsto> v)) kvs (map_of m)"
  unfolding assign_all_def
  by (induction kvs arbitrary: m) (auto simp: update_conv')

lemma derived_records_polarity:
  assumes "derived f doc m = Inr m'" and "cv_ids doc = cv # rest" and "contains cv ''MS''"
  shows "map_of m' ''Scan polarity'' = Some (cv_of_value (polarity_of (sp_cv doc)))"
  using assms
  by (auto simp: derived_def ebind_def first_def Let_def map_of_assign_all
      split: sum.splits list.splits if_splits)

lemma derived_records_mzrange:
  assumes "derived f doc m = Inr m'" and "cv_ids doc = cv # rest" and "contains cv ''MS''"
  shows "\<exists>r. mzrange_of (scan_window_cv doc) = Inr r
             \<and> map_of m' ''Scan m/z range'' = Some (cv_of_value r)"
  using assms
  by (auto simp: derived_def ebind_def first_def Let_def map_of_assign_all
      split: sum.splits list.splits if_splits)

text \<open>
  C6. Polarity derivation. Scanning all spectrum-level CV terms, the polarity is
  "positive/negative" when both MS:1000130 and MS:1000129 occur, "positive" when only
  MS:1000130 occurs, "negative" when only MS:1000129 occurs and "Not determined" when
  neither occurs; and whenever \<^verbatim>\<open>derived\<close> completes on a document whose CV id contains
  "MS", that string is what it records under "Scan polarity".
\<close>

theorem polarity_derivation:
  "polarity_of accs =
     (if ''MS:1000130'' \<in> set accs \<and> ''MS:1000129'' \<in> set accs then ''positive/negative''
      else if ''MS:1000130'' \<in> set accs then ''positive''
      else if ''MS:1000129'' \<in> set accs then ''negative''
      else ''Not determined'')
   \<and> (derived f doc m = Inr m' \<and> cv_ids doc = cv # rest \<and> contains cv ''MS''
        \<longrightarrow> map_of m' ''Scan polarity'' = Some (cv_of_value (polarity_of (sp_cv doc))))"
  using derived_records_polarity [of f doc m m' cv rest]
  by (simp add: polarity_of_def polarity_flags_set)

lemma derived_example: "derived (\<lambda>x. ''t'') example_doc [] = Inr example_meta"
  by code_simp

theorem polarity_derivation_witness:
  "polarity_of [''MS:1000130'', ''MS:1000511'', ''MS:1000129''] = ''positive/negative''
   \<and> derived (\<lambda>x. ''t'') example_doc [] = Inr example_meta
   \<and> map_of example_meta ''Scan polarity'' = Some (cv_of_value ''positive/negative'')"
proof -
  have doc: "sp_cv example_doc = [''MS:1000130'', ''MS:1000511'', ''MS:1000129'']"
    "cv_ids example_doc = [''MS'']"
    by (simp_all add: example_doc_def)
  from polarity_derivation [of "[''MS:1000130'', ''MS:1000511'', ''MS:1000129'']"
      "\<lambda>x. ''t''" example_doc "[]" example_meta "''MS''" "[]"] derived_example
  show ?thesis by (simp add: doc)
qed

lemma mz_lists_filter:
  "mz_lists sw =
     (map snd (filter (\<lambda>(a, v). a = ''MS:1000501'') sw),
      map snd (filter (\<lambda>(a, v). a = ''MS:1000500'') sw))"
  by (induction sw) (auto split: prod.splits)

lemma py_min_Min: "xs \<noteq> [] \<Longrightarrow> py_min xs = Inr (Min (set xs))"
  by (cases xs) (simp_all add: Min.set_eq_fold del: set_simps)

lemma py_max_Max: "xs \<noteq> [] \<Longrightarrow> py_max xs = Inr (Max (set xs))"
  by (cases xs) (simp_all add: Max.set_eq_fold del: set_simps)

lemma Min_nonneg:
  "xs \<noteq> [] \<Longrightarrow> \<forall>v \<in> set xs. (0::real) \<le> v \<Longrightarrow> 0 \<le> Min (set xs)"
  by (simp add: Min_ge_iff)

lemma Max_nonneg:
  "xs \<noteq> [] \<Longrightarrow> \<forall>v \<in> set xs. (0::real) \<le> v \<Longrightarrow> 0 \<le> Max (set xs)"
  by (cases xs) (auto simp: Max_ge_iff)

text \<open>
  C7. m/z range derivation. For every run with at least one MS:1000501 (low) and one
  MS:1000500 (high) scan-window value, none of them negative, the m/z range is "m - M"
  where m is the floor of the minimum of all low values and M the floor of the maximum of
  all high values: the fractional part is cut off, not rounded. A completed \<^verbatim>\<open>derived\<close> on
  a document whose CV id contains "MS" records that string under "Scan m/z range". The
  integers are those of \<^verbatim>\<open>int()\<close>, which drops the fractional part of any float.
\<close>

theorem mzrange_floor:
  assumes "lows = map snd (filter (\<lambda>(a, v). a = ''MS:1000501'') sw)"
    and "highs = map snd (filter (\<lambda>(a, v). a = ''MS:1000500'') sw)"
    and "lows \<noteq> []" and "highs \<noteq> []"
  shows "((\<forall>v \<in> set lows. 0 \<le> v) \<and> (\<forall>v \<in> set highs. 0 \<le> v) \<longrightarrow>
            mzrange_of sw =
              Inr (str_int \<lfloor>Min (set lows)\<rfloor> @ '' - '' @ str_int \<lfloor>Max (set highs)\<rfloor>)
            \<and> (derived f doc m = Inr m' \<and> scan_window_cv doc = sw
                 \<and> cv_ids doc = cv # rest \<and> contains cv ''MS''
               \<longrightarrow> map_of m' ''Scan m/z range''
                     = Some (cv_of_value
                         (str_int \<lfloor>Min (set lows)\<rfloor> @ '' - ''
                          @ str_int \<lfloor>Max (set highs)\<rfloor>))))
         \<and> mzrange_of sw =
           Inr (str_int (int_of_float (Min (set lows))) @ '' - ''
                @ str_int (int_of_float (Max (set highs))))
         \<and> (0 \<le> Min (set lows) \<longrightarrow> int_of_float (Min (set lows)) = \<lfloor>Min (set lows)\<rfloor>)
         \<and> (Min (set lows) < 0 \<longrightarrow> int_of_float (Min (set lows)) = \<lceil>Min (set lows)\<rceil>)
         \<and> (0 \<le> Max (set highs) \<longrightarrow> int_of_float (Max (set highs)) = \<lfloor>Max (set highs)\<rfloor>)
         \<and> (Max (set highs) < 0 \<longrightarrow> int_of_float (Max (set highs)) = \<lceil>Max (set highs)\<rceil>)
         \<and> (derived f doc m = Inr m' \<and> scan_window_cv doc = sw
              \<and> cv_ids doc = cv # rest \<and> contains cv ''MS''
            \<longrightarrow> map_of m' ''Scan m/z range''
                  = Some (cv_of_value
                      (str_int (int_of_float (Min (set lows))) @ '' - ''
                       @ str_int (int_of_float (Max (set highs))))))"
proof -
  have range: "mzrange_of sw =
           Inr (str_int (int_of_float (Min (set lows))) @ '' - ''
                @ str_int (int_of_float (Max (set highs))))"
    using assms
    by (simp add: mzrange_of_def mz_lists_filter ebind_def py_min_Min py_max_Max)
  have recorded: "map_of m' ''Scan m/z range''
                  = Some (cv_of_value
                      (str_int (int_of_float (Min (set lows))) @ '' - ''
                       @ str_int (int_of_float (Max (set highs)))))"
    if "derived f doc m = Inr m'" and "scan_window_cv doc = sw"
      and "cv_ids doc = cv # rest" and "contains cv ''MS''"
    using derived_records_mzrange [OF that(1,3,4)] range that(2) by auto
  have floors: "int_of_float (Min (set lows)) = \<lfloor>Min (set lows)\<rfloor>
              \<and> int_of_float (Max (set highs)) = \<lfloor>Max (set highs)\<rfloor>"
    if "\<forall>v \<in> set lows. 0 \<le> v" and "\<forall>v \<in> set highs. 0 \<le> v"
    using Min_nonneg [OF assms(3) that(1)] Max_nonneg [OF assms(4) that(2)]
    by (simp add: int_of_float_def)
  have general: "(0 \<le> x \<longrightarrow> int_of_float x = \<lfloor>x\<rfloor>) \<and> (x < 0 \<longrightarrow> int_of_float x = \<lceil>x\<rceil>)" for x
    by (simp add: int_of_float_def)
  show ?thesis
    using range recorded floors general [of "Min (set lows)"] general [of "Max (set highs)"]
    by metis
qed

text \<open>The example of the specification: lows 50.0 and 55.2, highs 500.7 and 499.9.\<close>

theorem mzrange_floor_witness:
  "mzrange_of [(''MS:1000501'', 50), (''MS:1000500'', 5007/10),
               (''MS:1000501'', 552/10), (''MS:1000500'', 4999/10)] = Inr ''50 - 500''
   \<and> derived (\<lambda>x. ''t'') example_doc [] = Inr example_meta
   \<and> map_of example_meta ''Scan m/z range'' = Some (cv_of_value ''50 - 500'')
   \<and> str_int \<lfloor>Min (set [50, 552/10 :: real])\<rfloor> @ '' - ''
       @ str_int \<lfloor>Max (set [5007/10, 4999/10 :: real])\<rfloor> = ''50 - 500''"
proof -
  have doc: "scan_window_cv example_doc
               = [(''MS:1000501'', 50), (''MS:1000500'', 5007/10),
                  (''MS:1000501'', 552/10), (''MS:1000500'', 4999/10)]"
    "cv_ids example_doc = [''MS'']"
    by (simp_all add: example_doc_def)
  have fl: "str_int \<lfloor>Min (set [50, 552/10 :: real])\<rfloor> @ '' - ''
       @ str_int \<lfloor>Max (set [5007/10, 4999/10 :: real])\<rfloor> = ''50 - 500''"
    by (simp add: str_int_def str_nat.simps digit_char_def)
  from mzrange_floor [where lows = "[50, 552/10]" and highs = "[5007/10, 4999/10]"
      and sw = "[(''MS:1000501'', 50), (''MS:1000500'', 5007/10),
                 (''MS:1000501'', 552/10), (''MS:1000500'', 4999/10)]"
      and f = "\<lambda>x. ''t''" and doc = example_doc and m = "[]" and m' = example_meta
      and cv = "''MS''" and rest = "[]"] derived_example
  have "mzrange_of [(''MS:1000501'', 50), (''MS:1000500'', 5007/10),
               (''MS:1000501'', 552/10), (''MS:1000500'', 4999/10)]
          = Inr (str_int \<lfloor>Min (set [50, 552/10 :: real])\<rfloor> @ '' - ''
                 @ str_int \<lfloor>Max (set [5007/10, 4999/10 :: real])\<rfloor>)
      \<and> map_of example_meta ''Scan m/z range''
          = Some (cv_of_value (str_int \<lfloor>Min (set [50, 552/10 :: real])\<rfloor> @ '' - ''
                 @ str_int \<lfloor>Max (set [5007/10, 4999/10 :: real])\<rfloor>))"
    by (simp add: doc)
  then show ?thesis using derived_example by (simp only: fl simp_thms)
qed

section \<open>Properties of the extractors\<close>

lemma map_of_fold_update_other:
  "k \<noteq> K \<Longrightarrow>
   map_of (fold (\<lambda>(acc, nm) m'. AList.update K (g acc nm) m') cvs m) k = map_of m k"
  by (induction cvs arbitrary: m) (auto simp: update_conv')

lemma map_of_software_elem_step_other:
  "k \<noteq> name @ vs \<Longrightarrow> k \<noteq> name @ ss \<Longrightarrow>
   map_of (software_elem_step vs ss ref name e m) k = map_of m k"
  by (simp add: software_elem_step_def map_of_fold_update_other update_conv')

lemma map_of_software_with_other:
  "k \<noteq> name @ vs \<Longrightarrow> k \<noteq> name @ ss \<Longrightarrow>
   map_of (software_with vs ss elements ref name m) k = map_of m k"
  unfolding software_with_def
  by (induction elements arbitrary: m) (simp_all add: map_of_software_elem_step_other)

lemma map_of_software_key [simp]:
  "map_of (software elements ref key m) key = map_of m key"
  by (simp add: software_def map_of_software_with_other)

lemma map_of_software_legacy_key [simp]:
  "map_of (software_legacy elements ref key m) key = map_of m key"
  by (simp add: software_legacy_def map_of_software_with_other)

lemma annotation_no_value [simp]: "(annotation e)\<lparr>cv_value := None\<rparr> = annotation e"
  by (simp add: annotation_def cv_of_term_def)

lemma record_match_field:
  assumes "record_match softwares info e (m, c) = Inr (m', c')"
  shows "map_of m' (if r_attribute info then e_tag e else r_name info)
           = Some (if r_plus1 info
                   then EntryList
                          (AList.update c
                             ((annotation e)\<lparr>cv_value := (if r_value info then e_value e else None)\<rparr>)
                             (entries_of m (if r_attribute info then e_tag e else r_name info)))
                   else Plain ((annotation e)\<lparr>cv_value := (if r_value info then e_value e else None)\<rparr>))
         \<and> c' = (if r_plus1 info then c + 1 else c)"
  using assms
  by (auto simp: record_match_def Let_def ebind_def update_conv'
      split: if_splits option.splits sum.splits)

lemma record_match_legacy_field:
  assumes "record_match_legacy softwares info e (m, c) = Inr (m', c')"
  shows "map_of m' (if r_attribute info \<and> r_plus1 info then e_tag e @ str_nat c
                    else if r_attribute info then e_tag e
                    else if r_plus1 info then r_name info @ str_nat c
                    else r_name info)
           = Some (Plain ((annotation e)\<lparr>cv_value := (if r_value info then e_value e else None)\<rparr>))
         \<and> c' = (if r_plus1 info then c + 1 else c)"
  using assms
  by (auto simp: record_match_legacy_def Let_def ebind_def update_conv'
      split: if_splits option.splits sum.splits)

text \<open>
  C3, as amended. Field key of a matching element. In the revised extractor the key is the
  raw tag of the element for an attribute rule, with or without "multiple", and the rule's
  display name otherwise; a "multiple" rule, attribute or not, stores its matches in one
  field under that key, an entry list keyed by the running counter of the location, and
  any other rule stores the annotation itself. In the first extractor the key is the tag
  followed by the counter for an attribute rule with "multiple", the tag for an attribute
  rule without, the display name followed by the counter for a "multiple" rule that is not
  an attribute, and the display name otherwise; the annotation itself is stored under it
  and no entry list is built. The annotation is accession and name, with the value when
  the rule has one. The loop runs this step on an element exactly when its accession is
  among the descendants of the rule's accession.
\<close>

theorem field_key_by_extractor:
  "(record_match softwares info e (m, c) = Inr (m', c') \<longrightarrow>
      map_of m' (if r_attribute info then e_tag e else r_name info)
        = Some (if r_plus1 info
                then EntryList
                       (AList.update c
                          ((annotation e)\<lparr>cv_value := (if r_value info then e_value e else None)\<rparr>)
                          (entries_of m (if r_attribute info then e_tag e else r_name info)))
                else Plain ((annotation e)\<lparr>cv_value := (if r_value info then e_value e else None)\<rparr>))
      \<and> c' = (if r_plus1 info then c + 1 else c))
   \<and> (record_match_legacy softwares info e (m, c) = Inr (l', d') \<longrightarrow>
      map_of l' (if r_attribute info \<and> r_plus1 info then e_tag e @ str_nat c
                 else if r_attribute info then e_tag e
                 else if r_plus1 info then r_name info @ str_nat c
                 else r_name info)
        = Some (Plain ((annotation e)\<lparr>cv_value := (if r_value info then e_value e else None)\<rparr>))
      \<and> d' = (if r_plus1 info then c + 1 else c))
   \<and> cvParam_loop getDescendents softwares [(accession, info)] [e] m
        = (if e_accession e \<in> set (getDescendents accession)
           then ebind (record_match softwares info e (m, 1)) (\<lambda>(m2, c2). Inr m2)
           else Inr m)
   \<and> cvParam_loop_legacy getDescendents softwares [(accession, info)] [e] m
        = (if e_accession e \<in> set (getDescendents accession)
           then ebind (record_match_legacy softwares info e (m, 1)) (\<lambda>(m2, c2). Inr m2)
           else Inr m)"
proof -
  have a: "cvParam_loop getDescendents softwares [(accession, info)] [e] m
        = (if e_accession e \<in> set (getDescendents accession)
           then ebind (record_match softwares info e (m, 1)) (\<lambda>(m2, c2). Inr m2)
           else Inr m)"
    by (simp add: cvParam_loop_def ebind_def split: sum.splits)
  have b: "cvParam_loop_legacy getDescendents softwares [(accession, info)] [e] m
        = (if e_accession e \<in> set (getDescendents accession)
           then ebind (record_match_legacy softwares info e (m, 1)) (\<lambda>(m2, c2). Inr m2)
           else Inr m)"
    by (simp add: cvParam_loop_legacy_def ebind_def split: sum.splits)
  show ?thesis
    using record_match_field [of softwares info e m c m' c']
      record_match_legacy_field [of softwares info e m c l' d'] a b
    by blast
qed

theorem field_key_by_extractor_witness:
  "record_match [] (snd (hd terms_ionization)) (source_potential ''3500'') ([], 1)
     = Inr ([(''{http://psi.hupo.org/ms/mzml}cvParam'',
              EntryList [(1, \<lparr>cv_name = Some ''source potential'',
                               cv_accession = Some ''MS:1000486'',
                               cv_value = Some ''3500''\<rparr>)])], 2)
   \<and> record_match_legacy [] (snd (hd terms_ionization)) (source_potential ''3500'') ([], 1)
     = Inr ([(''{http://psi.hupo.org/ms/mzml}cvParam1'',
              Plain \<lparr>cv_name = Some ''source potential'', cv_accession = Some ''MS:1000486'',
                     cv_value = Some ''3500''\<rparr>)], 2)
   \<and> map_of [(''{http://psi.hupo.org/ms/mzml}cvParam'',
              EntryList [(1, \<lparr>cv_name = Some ''source potential'',
                               cv_accession = Some ''MS:1000486'',
                               cv_value = Some ''3500''\<rparr>)])]
        (e_tag (source_potential ''3500''))
     = Some (EntryList [(1, \<lparr>cv_name = Some ''source potential'',
                               cv_accession = Some ''MS:1000486'',
                               cv_value = Some ''3500''\<rparr>)])
   \<and> map_of [(''{http://psi.hupo.org/ms/mzml}cvParam1'',
              Plain \<lparr>cv_name = Some ''source potential'', cv_accession = Some ''MS:1000486'',
                     cv_value = Some ''3500''\<rparr>)]
        (e_tag (source_potential ''3500'') @ str_nat 1)
     = Some (Plain \<lparr>cv_name = Some ''source potential'', cv_accession = Some ''MS:1000486'',
                     cv_value = Some ''3500''\<rparr>)"
proof -
  let ?info = "snd (hd terms_ionization)"
  let ?e = "source_potential ''3500''"
  let ?ann = "\<lparr>cv_name = Some ''source potential'', cv_accession = Some ''MS:1000486'',
               cv_value = Some ''3500''\<rparr>"
  have r: "record_match [] ?info ?e ([], 1)
             = Inr ([(''{http://psi.hupo.org/ms/mzml}cvParam'', EntryList [(1, ?ann)])], 2)"
    by code_simp
  have l: "record_match_legacy [] ?info ?e ([], 1)
             = Inr ([(''{http://psi.hupo.org/ms/mzml}cvParam1'', Plain ?ann)], 2)"
    by code_simp
  have info: "r_attribute ?info" "r_plus1 ?info" "r_value ?info"
    by (simp_all add: terms_ionization_def)
  have ann: "(annotation ?e)\<lparr>cv_value := e_value ?e\<rparr> = ?ann"
    by (simp add: annotation_def cv_of_term_def source_potential_def)
  have none: "entries_of [] (e_tag ?e) = []"
    by (simp add: entries_of_def)
  from field_key_by_extractor [where softwares = "[]" and info = ?info and e = ?e
      and m = "[]" and c = 1
      and m' = "[(''{http://psi.hupo.org/ms/mzml}cvParam'', EntryList [(1, ?ann)])]"
      and c' = 2
      and l' = "[(''{http://psi.hupo.org/ms/mzml}cvParam1'', Plain ?ann)]" and d' = 2]
    r l
  show ?thesis
    by (simp add: info ann none)
qed

text \<open>
  C3 as stated fails on each extractor. In the revised one two source potentials, matched
  by the attribute rule with "multiple", are stored under the bare tag, in one entry list,
  and no key is the tag followed by a counter. In the first one two spectrum types,
  matched by a "multiple" rule that is not an attribute, are stored as two fields keyed by
  the display name followed by the counter, and no entry list is built.
\<close>

theorem field_key_counterexample:
  "cvParam_loop example_descendents [] terms_ionization
       [source_potential ''3500'', source_potential ''4000''] []
     = Inr [(''{http://psi.hupo.org/ms/mzml}cvParam'',
             EntryList
               [(1, \<lparr>cv_name = Some ''source potential'', cv_accession = Some ''MS:1000486'',
                      cv_value = Some ''3500''\<rparr>),
                (2, \<lparr>cv_name = Some ''source potential'', cv_accession = Some ''MS:1000486'',
                      cv_value = Some ''4000''\<rparr>)])]
   \<and> cvParam_loop_legacy example_descendents [] terms_file_content_legacy
       [spectrum_type ''MS:1000579'' ''MS1 spectrum'',
        spectrum_type ''MS:1000580'' ''MSn spectrum''] []
     = Inr [(''data_file_content1'',
             Plain \<lparr>cv_name = Some ''MS1 spectrum'', cv_accession = Some ''MS:1000579'',
                    cv_value = None\<rparr>),
            (''data_file_content2'',
             Plain \<lparr>cv_name = Some ''MSn spectrum'', cv_accession = Some ''MS:1000580'',
                    cv_value = None\<rparr>)]"
  by code_simp

section \<open>Properties of the assay updater\<close>

lemma locate_missing:
  "n \<in> set names \<Longrightarrow> index_of head_short n = None
     \<Longrightarrow> length (fst (locate head_short adj names)) < length names"
  by (induction names) (auto split: option.splits prod.splits)

lemma locate_printed:
  "locate head_short adj names = (found, diag) \<Longrightarrow> diag \<noteq> []
     \<Longrightarrow> length found < length names"
  by (induction names arbitrary: found diag) (auto split: option.splits prod.splits)

lemma read_assay_printed:
  assumes "read_assay file_lines = Inr rd" and "rd_printed rd \<noteq> []"
  shows "\<exists>headers_l standard_row. rd_headers_l rd = Some headers_l
           \<and> rd_standard_row rd = Some standard_row \<and> length (rd_indices rd) < 6"
proof -
  have six: "length expected_columns = 6"
    by (simp add: expected_columns_def)
  from assms show ?thesis
    by (auto simp: read_assay_def ebind_def six [symmetric]
        split: list.splits sum.splits prod.splits dest: locate_printed)
qed

lemma assign_cell_unbound:
  "length indices \<le> j \<Longrightarrow> \<exists>e. assign_cell file indices (j, off, k1, k2) row = Inl e"
  by (cases "read_field file k1 k2") (simp_all add: assign_cell_def ebind_def)

lemma efold_fails:
  "x \<in> set xs \<Longrightarrow> (\<And>s. \<exists>e. f x s = Inl e) \<Longrightarrow> \<exists>e. efold f xs s = Inl e"
proof (induction xs arbitrary: s)
  case Nil
  then show ?case by simp
next
  case (Cons y ys)
  show ?case
  proof (cases "f y s")
    case (Inl e)
    then show ?thesis by simp
  next
    case (Inr t)
    with Cons.prems(2) [of s] have "x \<noteq> y" by auto
    with Cons.prems(1) have "x \<in> set ys" by simp
    from Cons.IH [OF this Cons.prems(2), of t] Inr show ?thesis by simp
  qed
qed

lemma unbound_index_fails:
  assumes "length indices < 6"
  shows "\<exists>e. efold (assign_cell file indices) assignments row = Inl e"
proof (rule efold_fails [where x = "(5, 0, ''raw_data_file'', ValueKey)"])
  show "(5, 0, ''raw_data_file'', ValueKey) \<in> set assignments"
    by (simp add: assignments_def)
next
  fix s
  from assms have "length indices \<le> 5" by simp
  then show "\<exists>e. assign_cell file indices (5, 0, ''raw_data_file'', ValueKey) s = Inl e"
    by (rule assign_cell_unbound)
qed

text \<open>
  Whenever a column lookup has failed and been printed, the first record already ends the
  update with an exception, and nothing but the header has been written.
\<close>

lemma reported_column_writes_no_row:
  assumes "read_assay file_lines = Inr rd" and "rd_printed rd \<noteq> []" and "metalist \<noteq> []"
  shows "\<exists>headers_l e. rd_headers_l rd = Some headers_l
           \<and> up_rows (isa_assay_file file_lines metalist) = [headers_l]
           \<and> up_error (isa_assay_file file_lines metalist) = Some e"
proof -
  from read_assay_printed [OF assms(1,2)] obtain headers_l standard_row where
    h: "rd_headers_l rd = Some headers_l" and s: "rd_standard_row rd = Some standard_row"
    and len: "length (rd_indices rd) < 6"
    by blast
  from assms(3) obtain r rest where m: "metalist = r # rest"
    by (cases metalist) auto
  from unbound_index_fails [OF len] obtain e where
    "efold (assign_cell r (rd_indices rd)) assignments standard_row = Inl e"
    by blast
  then show ?thesis
    using assms(1) h s m by (simp add: isa_assay_file_def)
qed

text \<open>
  C4. The claim: when an expected column is absent, the lookup failure is reported, the
  remaining columns are still located and filled, and the row is written with only the
  cells of the missing column unmodified. The six lookups stand in one \<^verbatim>\<open>try\<close> block: the
  first failure is printed and the lookups after it are skipped. On an assay file without
  the "Parameter Value[Scan m/z range]" column the header is written, then the first record
  stops at the unbound \<^verbatim>\<open>mzrange_idx\<close> with a \<^verbatim>\<open>NameError\<close> and no row is written; with the
  column present the row is filled and written.
\<close>

theorem missing_column_aborts_update:
  "isa_assay_file (legacy_assay_file False) [legacy_record]
     = \<lparr>up_rows =
          [[''Sample Name'', ''Protocol REF'', ''Parameter Value[Scan polarity]'',
            ''Parameter Value[Instrument]'', ''Term Source REF'', ''Term Accession Number'',
            ''Parameter Value[Ion source]'', ''Term Source REF'', ''Term Accession Number'',
            ''Parameter Value[Mass analyzer]'', ''Term Source REF'', ''Term Accession Number'',
            ''Raw Spectral Data File'', ''Protocol REF'' @ [CHR 0x0A]]],
        up_printed = [''Parameter Value[Scan m/z range]''],
        up_error = Some NameError\<rparr>
   \<and> isa_assay_file (legacy_assay_file True) [legacy_record]
     = \<lparr>up_rows =
          [[''Sample Name'', ''Protocol REF'', ''Parameter Value[Scan polarity]'',
            ''Parameter Value[Scan m/z range]'',
            ''Parameter Value[Instrument]'', ''Term Source REF'', ''Term Accession Number'',
            ''Parameter Value[Ion source]'', ''Term Source REF'', ''Term Accession Number'',
            ''Parameter Value[Mass analyzer]'', ''Term Source REF'', ''Term Accession Number'',
            ''Raw Spectral Data File'', ''Protocol REF'' @ [CHR 0x0A]],
           [''s1'', ''Mass spectrometry'', ''positive'', ''50 - 500'',
            ''Thermo Scientific'', ''MS'', ''MS:1000494'',
            ''electrospray ionization'', ''MS'', ''MS:1000073'',
            ''orbitrap'', ''MS'', ''MS:1000484'',
            ''run1.raw'', ''Data transformation'' @ [CHR 0x0A]]],
        up_printed = [],
        up_error = None\<rparr>"
  by code_simp

section \<open>Properties of the generator\<close>

subsection \<open>Results of fallible steps\<close>

lemma ebind_Inr_iff: "ebind m f = Inr y \<longleftrightarrow> (\<exists>x. m = Inr x \<and> f x = Inr y)"
  by (cases m) (simp_all add: ebind_def)

lemma index_of_Some: "index_of xs x = Some i \<Longrightarrow> i < length xs \<and> xs ! i = x"
  by (induction xs arbitrary: i) (auto split: if_splits)

lemma py_index_Inr: "py_index xs x = Inr i \<longleftrightarrow> index_of xs x = Some i"
  by (simp add: py_index_def split: option.splits)

lemma py_set_length: "py_set xs i v = Inr ys \<Longrightarrow> length ys = length xs"
  by (auto simp: py_set_def split: if_splits)

lemma py_set_int_length: "py_set_int xs i v = Inr ys \<Longrightarrow> length ys = length xs"
  by (auto simp: py_set_int_def dest: py_set_length split: if_splits)

lemma update_row_length: "update_row main mv row = Inr row' \<Longrightarrow> length row' = length row"
  by (auto simp: update_row_def ebind_Inr_iff dest!: py_set_length split: option.splits)

lemma fill_entries_length:
  "fill_entries indices es row = Inr row' \<Longrightarrow> length row' = length row"
  by (induction indices es row rule: fill_entries.induct)
     (auto split: sum.splits dest: update_row_length)

lemma efold_invariant:
  assumes "efold f xs s = Inr s'" and "P s"
    and "\<And>x t t'. x \<in> set xs \<Longrightarrow> P t \<Longrightarrow> f x t = Inr t' \<Longrightarrow> P t'"
  shows "P s'"
  using assms
proof (induction xs arbitrary: s)
  case Nil
  then show ?case by simp
next
  case (Cons x xs)
  from Cons.prems(1) obtain t where t: "f x s = Inr t" and rest: "efold f xs t = Inr s'"
    by (auto split: sum.splits)
  have "P t" using Cons.prems(2) t Cons.prems(3) [of x s t] by simp
  show ?case
  proof (rule Cons.IH [OF rest \<open>P t\<close>])
    fix y u u'
    assume "y \<in> set xs" and "P u" and "f y u = Inr u'"
    then show "P u'" using Cons.prems(3) [of y u u'] by simp
  qed
qed

lemma emap_results: "emap f xs = Inr ys \<Longrightarrow> y \<in> set ys \<Longrightarrow> \<exists>x \<in> set xs. f x = Inr y"
  by (induction xs arbitrary: ys) (auto split: sum.splits)

lemma emap_length: "emap f xs = Inr ys \<Longrightarrow> length ys = length xs"
  by (induction xs arbitrary: ys) (auto split: sum.splits)

lemma process_field_lengths:
  assumes "process_field mh sni kv st = Inr st'"
  shows "length (st_pre_row st') = length (st_pre_row st)
       \<and> length (st_new_mass_row st') = length (st_new_mass_row st)
       \<and> st_full_row st' = st_full_row st"
  using assms
  apply (clarsimp simp: process_field_def ebind_Inr_iff
      split: prod.splits field.splits option.splits if_splits)
         apply (auto dest!: py_set_length update_row_length fill_entries_length)
  done

lemma process_field_sample_names:
  assumes "process_field mh sni kv st = Inr st'" and "fst kv \<noteq> ''Sample Name''"
  shows "st_sample_names st' = st_sample_names st"
  using assms
  by (auto simp: process_field_def ebind_Inr_iff
      split: prod.splits field.splits option.splits if_splits)

lemma process_fields_lengths:
  assumes "efold (process_field mh sni) file_meta st = Inr st'"
  shows "length (st_pre_row st') = length (st_pre_row st)
       \<and> length (st_new_mass_row st') = length (st_new_mass_row st)
       \<and> st_full_row st' = st_full_row st"
  by (rule efold_invariant [OF assms]) (auto dest: process_field_lengths)

lemma process_fields_sample_names:
  assumes "efold (process_field mh sni) file_meta st = Inr st'"
    and "''Sample Name'' \<notin> fst ` set file_meta"
  shows "st_sample_names st' = st_sample_names st"
proof (rule efold_invariant [OF assms(1)])
  show "st_sample_names st = st_sample_names st" by simp
next
  fix x t t'
  assume "x \<in> set file_meta" and "st_sample_names t = st_sample_names st"
    and "process_field mh sni x t = Inr t'"
  moreover from \<open>x \<in> set file_meta\<close> assms(2) have "fst x \<noteq> ''Sample Name''" by force
  ultimately show "st_sample_names t' = st_sample_names st"
    using process_field_sample_names [of mh sni x t t'] by simp
qed

lemma process_record_rows:
  assumes "process_record mh sni post file_meta st = Inr st'"
    and "length (st_pre_row st) = a" and "length (st_new_mass_row st) = b"
    and "\<forall>row \<in> set (st_full_row st). length row = a + b + length post"
  shows "length (st_pre_row st') = a \<and> length (st_new_mass_row st') = b
       \<and> (\<forall>row \<in> set (st_full_row st'). length row = a + b + length post)"
  using assms
  by (auto simp: process_record_def ebind_Inr_iff dest!: process_fields_lengths)

lemma process_record_sample_names:
  assumes "process_record mh sni post file_meta st = Inr st'"
    and "''Sample Name'' \<notin> fst ` set file_meta"
  shows "st_sample_names st' = st_sample_names st"
  using assms
  by (auto simp: process_record_def ebind_Inr_iff dest!: process_fields_sample_names)

lemma build_rows_lengths:
  assumes "build_rows headers_row standard_row sni mpi mei metalist = Inr st"
  shows "\<forall>row \<in> set (st_full_row st).
           length row = length (take (mpi + 1) standard_row)
                        + length (slice headers_row (mpi + 1) mei)
                        + length (drop mei standard_row)"
proof -
  let ?a = "length (take (mpi + 1) standard_row)"
  let ?b = "length (slice headers_row (mpi + 1) mei)"
  let ?post = "drop mei standard_row"
  let ?P = "\<lambda>t. length (st_pre_row t) = ?a \<and> length (st_new_mass_row t) = ?b
             \<and> (\<forall>row \<in> set (st_full_row t). length row = ?a + ?b + length ?post)"
  have "?P st"
  proof (rule efold_invariant [where P = ?P])
    show "efold (process_record (slice headers_row (mpi + 1) mei) sni ?post) metalist
            \<lparr>st_pre_row = take (mpi + 1) standard_row,
             st_new_mass_row = replicate ?b '''',
             st_sample_names = [], st_full_row = []\<rparr> = Inr st"
      using assms by (simp add: build_rows_def Let_def)
  next
    show "?P \<lparr>st_pre_row = take (mpi + 1) standard_row,
             st_new_mass_row = replicate ?b '''',
             st_sample_names = [], st_full_row = []\<rparr>"
      by simp
  next
    fix x t t'
    assume "?P t"
      and "process_record (slice headers_row (mpi + 1) mei) sni ?post x t = Inr t'"
    then show "?P t'"
      using process_record_rows [of "slice headers_row (mpi + 1) mei" sni ?post x t t' ?a ?b]
      by simp
  qed
  then show ?thesis by simp
qed

lemma build_rows_header_length:
  assumes "build_rows headers_row standard_row sni mpi mei metalist = Inr st"
    and "length headers_row = length standard_row"
    and "mpi < mei" and "mei < length standard_row"
  shows "\<forall>row \<in> set (st_full_row st). length row = length headers_row"
  using build_rows_lengths [OF assms(1)] assms(2-4)
  by (auto simp: slice_def)

lemma build_rows_sample_names:
  assumes "build_rows headers_row standard_row sni mpi mei metalist = Inr st"
    and "\<forall>file_meta \<in> set metalist. ''Sample Name'' \<notin> fst ` set file_meta"
  shows "st_sample_names st = []"
proof -
  let ?P = "\<lambda>t. st_sample_names t = []"
  show ?thesis
  proof (rule efold_invariant [where P = ?P])
    show "efold (process_record (slice headers_row (mpi + 1) mei) sni (drop mei standard_row))
            metalist
            \<lparr>st_pre_row = take (mpi + 1) standard_row,
             st_new_mass_row = replicate (length (slice headers_row (mpi + 1) mei)) '''',
             st_sample_names = [], st_full_row = []\<rparr> = Inr st"
      using assms(1) by (simp add: build_rows_def Let_def)
  next
    show "?P \<lparr>st_pre_row = take (mpi + 1) standard_row,
             st_new_mass_row = replicate (length (slice headers_row (mpi + 1) mei)) '''',
             st_sample_names = [], st_full_row = []\<rparr>"
      by simp
  next
    fix x t t'
    assume "x \<in> set metalist" and "?P t"
      and "process_record (slice headers_row (mpi + 1) mei) sni (drop mei standard_row) x t
             = Inr t'"
    then show "?P t'"
      using process_record_sample_names assms(2) by metis
  qed
qed

lemma length_filter_enumerate:
  "length (filter (\<lambda>(i, item). P i) (enumerate n xs)) = length (filter P [n ..< n + length xs])"
proof (induction xs arbitrary: n)
  case Nil
  then show ?case by simp
next
  case (Cons x xs)
  have "[n ..< n + Suc (length xs)] = n # [Suc n ..< n + Suc (length xs)]"
    by (rule upt_conv_Cons) simp
  then show ?case using Cons.IH [of "Suc n"] by simp
qed

lemma length_delete_at:
  "length (delete_at delete_cols row)
     = length (filter (\<lambda>i. i \<notin> set delete_cols) [0 ..< length row])"
  using length_filter_enumerate [of "\<lambda>i. i \<notin> set delete_cols" 0 row]
  by (simp add: delete_at_def)

lemma remove_blank_columns_lengths:
  assumes "remove_blank_columns start end_idx full_row headers_row = Inr (headers_row', full_row')"
    and "\<forall>row \<in> set full_row. length row = length headers_row"
  shows "\<forall>row \<in> set full_row'. length row = length headers_row'"
  using assms
  by (auto simp: remove_blank_columns_def ebind_Inr_iff length_delete_at)

lemma data_transformation_lengths:
  assumes "emap (\<lambda>row. py_set_int row d v) full_row = Inr rows"
    and "\<forall>row \<in> set full_row. length row = n"
  shows "\<forall>row \<in> set rows. length row = n"
  using emap_results [OF assms(1)] assms(2)
  by (metis py_set_int_length)

lemma write_polarity_lengths:
  assumes "write_polarity name headers_row pidx polarity (full_row, files, written)
             = Inr (full_row', files', written')"
    and "\<forall>row \<in> set full_row. length row = n"
    and "\<forall>f \<in> set files. af_header f = headers_row \<and> (\<forall>row \<in> set (af_rows f). length row = n)"
  shows "(\<forall>row \<in> set full_row'. length row = n)
       \<and> (\<forall>f \<in> set files'. af_header f = headers_row
                                  \<and> (\<forall>row \<in> set (af_rows f). length row = n))"
proof -
  from assms(1) obtain sel d where
    rows: "emap (\<lambda>(s, row). if s then py_set_int row d ''Data transformation'' else Inr row)
             (zip sel full_row) = Inr full_row'"
    and files': "files' = files @ [\<lparr>af_name = assay_polar_file_name name (upper (take 3 polarity)),
                     af_header = headers_row,
                     af_rows = map snd (filter fst (zip sel full_row'))\<rparr>]"
    by (auto simp: write_polarity_def ebind_Inr_iff)
  have len: "\<forall>row \<in> set full_row'. length row = n"
  proof
    fix row assume "row \<in> set full_row'"
    from emap_results [OF rows this] obtain s r where "(s, r) \<in> set (zip sel full_row)"
      and "(if s then py_set_int r d ''Data transformation'' else Inr r) = Inr row"
      by auto
    moreover from this(1) have "r \<in> set full_row" by (rule set_zip_rightD)
    ultimately show "length row = n"
      using assms(2) by (auto dest: py_set_int_length split: if_splits)
  qed
  moreover have "\<forall>row \<in> set (map snd (filter fst (zip sel full_row'))). length row = n"
    using len by (auto dest: set_zip_rightD)
  ultimately show ?thesis using assms(3) files' by auto
qed

lemma write_assays_lengths:
  assumes "write_assays name headers_row full_row pidx sep = Inr (files, written)"
    and "\<forall>row \<in> set full_row. length row = n"
  shows "\<forall>f \<in> set files. af_header f = headers_row \<and> (\<forall>row \<in> set (af_rows f). length row = n)"
proof -
  from assms(1) obtain column where
    body: "(if length (remdups column) = 1 \<or> \<not> sep
       then
        ebind (data_tran_idx headers_row) (\<lambda>d.
        ebind (emap (\<lambda>row. py_set_int row d ''Data transformation'') full_row) (\<lambda>rows.
        Inr ([\<lparr>af_name = assay_file_name name, af_header = headers_row, af_rows = rows\<rparr>],
             [assay_file_name name])))
      else
        ebind (efold (write_polarity name headers_row pidx) (remdups column) (full_row, [], []))
          (\<lambda>(full_row', files, written). Inr (files, written))) = Inr (files, written)"
    by (auto simp: write_assays_def ebind_Inr_iff Let_def)
  show ?thesis
  proof (cases "length (remdups column) = 1 \<or> \<not> sep")
    case True
    with body obtain d rows where
      "emap (\<lambda>row. py_set_int row d ''Data transformation'') full_row = Inr rows"
      and "files = [\<lparr>af_name = assay_file_name name, af_header = headers_row, af_rows = rows\<rparr>]"
      by (auto simp: ebind_Inr_iff)
    then show ?thesis using data_transformation_lengths assms(2) by fastforce
  next
    case False
    with body obtain full_row' where
      run: "efold (write_polarity name headers_row pidx) (remdups column) (full_row, [], [])
              = Inr (full_row', files, written)"
      by (auto simp: ebind_Inr_iff)
    let ?P = "\<lambda>(fr, fs, ws). (\<forall>row \<in> set fr. length row = n)
       \<and> (\<forall>f \<in> set fs. af_header f = headers_row \<and> (\<forall>row \<in> set (af_rows f). length row = n))"
    have "?P (full_row', files, written)"
    proof (rule efold_invariant [OF run, where P = ?P])
      show "?P (full_row, [], [])" using assms(2) by simp
    next
      fix x t t'
      assume "?P t" and "write_polarity name headers_row pidx x t = Inr t'"
      then show "?P t'"
        using write_polarity_lengths [of name headers_row pidx x "fst t" "fst (snd t)"
            "snd (snd t)" "fst t'" "fst (snd t')" "snd (snd t')" n]
        by (cases t; cases t') simp
    qed
    then show ?thesis by simp
  qed
qed

subsection \<open>Rows and header have the same length\<close>

text \<open>
  C9. Assay row/header length invariant. For a template whose header and standard row
  have the same number of cells and in which "Mass spectrometry" stands before
  "Metabolite identification": after row construction every row has as many cells as the
  header; after column pruning every row has as many cells as the pruned header; and
  every written assay file has rows of the same length as its written header.
\<close>

theorem assay_rows_match_header:
  assumes "map parse_row template = [headers_row, standard_row]"
    and "length headers_row = length standard_row"
    and "index_of standard_row ''Mass spectrometry'' = Some mpi"
    and "index_of standard_row ''Metabolite identification'' = Some mei"
    and "mpi < mei"
  shows "(build_rows headers_row standard_row sni mpi mei metalist = Inr st
            \<longrightarrow> (\<forall>row \<in> set (st_full_row st). length row = length headers_row))
       \<and> (build_rows headers_row standard_row sni mpi mei metalist = Inr st
            \<and> remove_blank_columns mpi mei (st_full_row st) headers_row = Inr (h', rows')
            \<longrightarrow> (\<forall>row \<in> set rows'. length row = length h'))
       \<and> (create_assay name template metalist sep = Inr res
            \<longrightarrow> (\<forall>f \<in> set (res_files res). \<forall>row \<in> set (af_rows f).
                   length row = length (af_header f)))"
proof -
  have mei: "mei < length standard_row"
    using index_of_Some [OF assms(4)] by simp
  have built: "\<forall>row \<in> set (st_full_row t). length row = length headers_row"
    if "build_rows headers_row standard_row i mpi mei metalist = Inr t" for i t
    using build_rows_header_length [OF that assms(2) assms(5) mei] .
  have pruned: "\<forall>row \<in> set rs. length row = length h"
    if "build_rows headers_row standard_row i mpi mei metalist = Inr t"
      and "remove_blank_columns mpi mei (st_full_row t) headers_row = Inr (h, rs)" for i t h rs
    using remove_blank_columns_lengths [OF that(2) built [OF that(1)]] .
  have written: "\<forall>f \<in> set (res_files res). \<forall>row \<in> set (af_rows f).
                   length row = length (af_header f)"
    if run: "create_assay name template metalist sep = Inr res"
  proof -
    from run assms(1)
    have "create_assay_rows name headers_row standard_row metalist sep = Inr res"
      by (simp add: create_assay_def)
    then obtain i pidx t h rs files ws where
      b: "build_rows headers_row standard_row i mpi mei metalist = Inr t"
      and r: "remove_blank_columns mpi mei (st_full_row t) headers_row = Inr (h, rs)"
      and w: "write_assays name h rs pidx sep = Inr (files, ws)"
      and res: "res_files res = files"
      using assms(3,4)
      by (auto simp: create_assay_rows_def ebind_Inr_iff py_index_Inr)
    from write_assays_lengths [OF w pruned [OF b r]] res show ?thesis by simp
  qed
  show ?thesis using built pruned written by blast
qed

theorem assay_rows_match_header_witness:
  "(case create_assay ''x'' example_assay_template
           (map isa_tab_compatible [raw_qe_pos, raw_plain_neg]) False of
      Inl e \<Rightarrow> False
    | Inr res \<Rightarrow>
        map (\<lambda>f. (length (af_header f), map length (af_rows f))) (res_files res)
          = [(12, [12, 12])]
        \<and> list_all (\<lambda>f. list_all (\<lambda>row. length row = length (af_header f)) (af_rows f))
            (res_files res))"
proof -
  have t: "map parse_row example_assay_template = [example_header, example_standard_row]"
    by code_simp
  have l: "length example_header = length example_standard_row"
    by code_simp
  have i1: "index_of example_standard_row ''Mass spectrometry'' = Some 1"
    by code_simp
  have i2: "index_of example_standard_row ''Metabolite identification'' = Some 11"
    by code_simp
  define res where "res =
     \<lparr>res_sample_names = [],
      res_written_assays = [''a_x_metabolite_profiling_mass_spectrometry.txt''],
      res_files =
        [\<lparr>af_name = ''a_x_metabolite_profiling_mass_spectrometry.txt'',
          af_header =
            [''Sample Name'', ''Protocol REF'', ''Parameter Value[Instrument]'',
             ''Term Source REF'', ''Term Accession Number'',
             ''Parameter Value[Scan polarity]'', ''MS Assay Name'', ''Protocol REF'',
             ''Normalization Name'', ''Derived Spectral Data File'', ''Protocol REF'',
             ''Metabolite Assignment File''],
          af_rows =
            [[''sample'', ''Mass spectrometry'', ''Q Exactive'', ''MS'', ''MS:1001911'',
              ''positive'', ''runA'', ''Data transformation'', '''', '''',
              ''Metabolite identification'', ''m_maf.tsv''],
             [''sample'', ''Mass spectrometry'', ''Q Exactive'', ''MS'', ''MS:1001911'',
              ''negative'', ''runB'', ''Data transformation'', '''', '''',
              ''Metabolite identification'', ''m_maf.tsv'']]\<rparr>]\<rparr>"
  have run: "create_assay ''x'' example_assay_template
      (map isa_tab_compatible [raw_qe_pos, raw_plain_neg]) False = Inr res"
    unfolding res_def by code_simp
  have shape: "map (\<lambda>f. (length (af_header f), map length (af_rows f))) (res_files res)
                  = [(12, [12, 12])]"
    unfolding res_def by simp
  from assay_rows_match_header [OF t l i1 i2, where name = "''x''" and sep = False
      and metalist = "map isa_tab_compatible [raw_qe_pos, raw_plain_neg]" and res = res] run
  have "\<forall>f \<in> set (res_files res). \<forall>row \<in> set (af_rows f). length row = length (af_header f)"
    by simp
  then show ?thesis using run shape by (simp add: list_all_iff)
qed

subsection \<open>Records of the extractor carry no sample name\<close>

lemma isa_tab_compatible_keys_fold:
  "fst ` set (fold (\<lambda>(meta_name, v) meta_isa.
             if meta_name \<in> set keep then AList.update meta_name v meta_isa
             else AList.update (''Parameter Value['' @ meta_name @ '']'') v meta_isa) m acc)
     \<subseteq> fst ` set acc \<union> {k. k \<in> set keep \<or> (\<exists>n. k = ''Parameter Value['' @ n @ '']'')}"
  (is "fst ` set (fold ?step m acc) \<subseteq> fst ` set acc \<union> ?K")
proof (induction m arbitrary: acc)
  case Nil
  then show ?case by simp
next
  case (Cons kv m)
  obtain k v where kv: "kv = (k, v)" by (cases kv)
  let ?acc' = "?step kv acc"
  have "fst ` set ?acc' \<subseteq> fst ` set acc \<union> ?K"
    unfolding kv by (auto simp: dom_update)
  then have "fst ` set ?acc' \<union> ?K \<subseteq> fst ` set acc \<union> ?K"
    by blast
  with Cons.IH [of ?acc'] have "fst ` set (fold ?step m ?acc') \<subseteq> fst ` set acc \<union> ?K"
    by (rule subset_trans)
  then show ?case by simp
qed

lemma isa_tab_compatible_keys:
  "k \<in> fst ` set (isa_tab_compatible m)
     \<Longrightarrow> k \<in> set keep \<or> (\<exists>n. k = ''Parameter Value['' @ n @ '']'')"
  using isa_tab_compatible_keys_fold [of m "[]"]
  by (auto simp: isa_tab_compatible_def)

lemma isa_tab_compatible_no_sample_name:
  "''Sample Name'' \<notin> fst ` set (isa_tab_compatible m)"
proof
  assume "''Sample Name'' \<in> fst ` set (isa_tab_compatible m)"
  from isa_tab_compatible_keys [OF this] show False
    by (simp add: keep_def)
qed

lemma create_assay_sample_names:
  assumes "create_assay name template metalist sep = Inr res"
    and "\<forall>file_meta \<in> set metalist. ''Sample Name'' \<notin> fst ` set file_meta"
  shows "res_sample_names res = []"
proof -
  from assms(1) obtain headers_row standard_row where
    "create_assay_rows name headers_row standard_row metalist sep = Inr res"
    by (auto simp: create_assay_def split: list.splits)
  then obtain sni mpi mei st where
    "build_rows headers_row standard_row sni mpi mei metalist = Inr st"
    and "res_sample_names res = st_sample_names st"
    by (auto simp: create_assay_rows_def ebind_Inr_iff)
  then show ?thesis using build_rows_sample_names [OF _ assms(2)] by simp
qed

lemma create_study_no_samples:
  "create_study render_row [headers_line, default_line] []
     = Inr [split_on tab (unquote (rstrip headers_line))]"
  by (simp add: create_study_def ebind_def)

text \<open>
  C10. The ISA-renamed projection of the extractor never has a field keyed "Sample Name":
  every key is one of the six verbatim keys or has the form "Parameter Value[...]". So
  for every list of such records on which the assay is generated, the running list of
  sample names stays empty, and the study file, written from its two-line template, is
  the header line followed by no sample row.
\<close>

theorem extractor_records_give_no_sample_rows:
  "''Sample Name'' \<notin> fst ` set (isa_tab_compatible m)
   \<and> (\<forall>k \<in> fst ` set (isa_tab_compatible m).
         k \<in> set keep \<or> (\<exists>n. k = ''Parameter Value['' @ n @ '']''))
   \<and> (create_assay name template (map isa_tab_compatible metas) sep = Inr res
        \<longrightarrow> res_sample_names res = []
            \<and> create_study render_row [headers_line, default_line] (res_sample_names res)
                = Inr [split_on tab (unquote (rstrip headers_line))])"
proof -
  have "res_sample_names res = []"
    if "create_assay name template (map isa_tab_compatible metas) sep = Inr res"
    using create_assay_sample_names [OF that]
    by (simp add: isa_tab_compatible_no_sample_name)
  then show ?thesis
    using isa_tab_compatible_no_sample_name [of m] isa_tab_compatible_keys [of _ m]
      create_study_no_samples [of render_row headers_line default_line]
    by auto
qed

theorem extractor_records_give_no_sample_rows_witness:
  "map fst (isa_tab_compatible raw_plain_pos)
     = [''MS Assay Name'', ''Parameter Value[Scan polarity]'']
   \<and> (case create_assay ''x'' example_assay_template
              (map isa_tab_compatible [raw_plain_pos]) True of
        Inl e \<Rightarrow> False
      | Inr res \<Rightarrow>
          res_written_assays res = [''a_x_metabolite_profiling_mass_spectrometry.txt'']
          \<and> res_sample_names res = []
          \<and> create_study (\<lambda>l n. Inr l) example_study (res_sample_names res)
              = Inr [[''Source Name'', ''Sample Name'']])"
proof -
  define res where "res =
     \<lparr>res_sample_names = [],
      res_written_assays = [''a_x_metabolite_profiling_mass_spectrometry.txt''],
      res_files =
        [\<lparr>af_name = ''a_x_metabolite_profiling_mass_spectrometry.txt'',
          af_header =
            [''Sample Name'', ''Protocol REF'', ''Parameter Value[Scan polarity]'',
             ''MS Assay Name'', ''Protocol REF'', ''Normalization Name'',
             ''Derived Spectral Data File'', ''Protocol REF'', ''Metabolite Assignment File''],
          af_rows =
            [[''sample'', ''Mass spectrometry'', ''positive'', ''runC'',
              ''Data transformation'', '''', '''', ''Metabolite identification'',
              ''m_maf.tsv'']]\<rparr>]\<rparr>"
  have run: "create_assay ''x'' example_assay_template
      (map isa_tab_compatible [raw_plain_pos]) True = Inr res"
    unfolding res_def by code_simp
  have keys: "map fst (isa_tab_compatible raw_plain_pos)
     = [''MS Assay Name'', ''Parameter Value[Scan polarity]'']"
    by code_simp
  have study: "example_study = [''Source Name'' @ [tab] @ ''Sample Name'' @ [CHR 0x0A],
      ''source'' @ [tab] @ ''{name}'' @ [CHR 0x0A]]"
    by (simp add: example_study_def)
  have header: "split_on tab (unquote (rstrip (''Source Name'' @ [tab] @ ''Sample Name'' @ [CHR 0x0A])))
      = [''Source Name'', ''Sample Name'']"
    by code_simp
  from extractor_records_give_no_sample_rows [where name = "''x''"
      and template = example_assay_template and metas = "[raw_plain_pos]" and sep = True
      and res = res and render_row = "\<lambda>l n. Inr l"
      and headers_line = "''Source Name'' @ [tab] @ ''Sample Name'' @ [CHR 0x0A]"
      and default_line = "''source'' @ [tab] @ ''{name}'' @ [CHR 0x0A]"] run
  have "res_sample_names res = []
        \<and> create_study (\<lambda>l n. Inr l) example_study (res_sample_names res)
            = Inr [[''Source Name'', ''Sample Name'']]"
    unfolding study header by blast
  then show ?thesis using run keys by (simp add: res_def)
qed

subsection \<open>The columns that pruning deletes\<close>

lemma count_list_all: "count_list xs x = length xs \<longleftrightarrow> (\<forall>y \<in> set xs. y = x)"
proof (induction xs)
  case Nil
  then show ?case by simp
next
  case (Cons a xs)
  have "count_list xs x \<le> length xs" by (rule count_le_length)
  then show ?case using Cons.IH by auto
qed

lemma count_list_map_all:
  "count_list (map f rows) x = length rows \<longleftrightarrow> (\<forall>r \<in> set rows. f r = x)"
  using count_list_all [of "map f rows" x] by simp

lemma emap_py_get:
  "emap (\<lambda>col. py_get col i) rows = Inr column
     \<Longrightarrow> column = map (\<lambda>r. r ! i) rows \<and> (\<forall>r \<in> set rows. i < length r)"
  by (induction rows arbitrary: column) (auto simp: py_get_def split: sum.splits if_splits)

lemma column_blank_iff:
  "column_blank rows i = Inr b \<Longrightarrow> b = (\<forall>r \<in> set rows. r ! i = '''')"
  by (auto simp: column_blank_def ebind_Inr_iff count_list_map_all dest!: emap_py_get)

lemma blank_columns_filter:
  "blank_columns rows cols = Inr delete_cols
     \<Longrightarrow> delete_cols = filter (\<lambda>i. \<forall>r \<in> set rows. r ! i = '''') cols"
  by (induction cols arbitrary: delete_cols)
     (auto split: sum.splits dest!: column_blank_iff)

text \<open>
  The columns that pruning deletes: those from \<open>start\<close> up to, and without, \<open>end_idx - 3\<close>
  that are empty in every row. \<open>start\<close> itself is scanned.
\<close>

lemma remove_blank_columns_deleted:
  assumes "remove_blank_columns start end_idx rows headers_row = Inr (headers_row', rows')"
  shows "headers_row' = delete_at (filter (\<lambda>i. \<forall>r \<in> set rows. r ! i = '''')
                                   [start ..< end_idx - 3]) headers_row
       \<and> rows' = map (delete_at (filter (\<lambda>i. \<forall>r \<in> set rows. r ! i = '''')
                                   [start ..< end_idx - 3])) rows"
  using assms
  by (auto simp: remove_blank_columns_def ebind_Inr_iff dest!: blank_columns_filter)

subsection \<open>Runs of the generator on the example inputs\<close>

text \<open>
  C1. The claim: the MS-block cells of the row for record k are written by fields of
  record k alone. The code sets \<^verbatim>\<open>self.new_mass_row\<close> once, before the loop over the
  records. Here the first record names its instrument and the second has no instrument
  field; the row written for the second record (run "runB") still carries the first
  record's "Q Exactive", "MS" and "MS:1001911".
\<close>

theorem stale_mass_row_leaks_instrument:
  "map_of (isa_tab_compatible raw_plain_neg) ''Parameter Value[Instrument]'' = None
   \<and> create_assay ''x'' example_assay_template
        (map isa_tab_compatible [raw_qe_pos, raw_plain_neg]) True
     = Inr \<lparr>res_sample_names = [],
            res_written_assays =
              [''a_x_metabolite_profiling_mass_spectrometry_POS.txt'',
               ''a_x_metabolite_profiling_mass_spectrometry_NEG.txt''],
            res_files =
              [\<lparr>af_name = ''a_x_metabolite_profiling_mass_spectrometry_POS.txt'',
                af_header =
                  [''Sample Name'', ''Protocol REF'', ''Parameter Value[Instrument]'',
                   ''Term Source REF'', ''Term Accession Number'',
                   ''Parameter Value[Scan polarity]'', ''MS Assay Name'', ''Protocol REF'',
                   ''Normalization Name'', ''Derived Spectral Data File'', ''Protocol REF'',
                   ''Metabolite Assignment File''],
                af_rows =
                  [[''sample'', ''Mass spectrometry'', ''Q Exactive'', ''MS'', ''MS:1001911'',
                    ''positive'', ''runA'', ''Data transformation'', '''', '''',
                    ''Metabolite identification'', ''m_maf.tsv'']]\<rparr>,
               \<lparr>af_name = ''a_x_metabolite_profiling_mass_spectrometry_NEG.txt'',
                af_header =
                  [''Sample Name'', ''Protocol REF'', ''Parameter Value[Instrument]'',
                   ''Term Source REF'', ''Term Accession Number'',
                   ''Parameter Value[Scan polarity]'', ''MS Assay Name'', ''Protocol REF'',
                   ''Normalization Name'', ''Derived Spectral Data File'', ''Protocol REF'',
                   ''Metabolite Assignment File''],
                af_rows =
                  [[''sample'', ''Mass spectrometry'', ''Q Exactive'', ''MS'', ''MS:1001911'',
                    ''negative'', ''runB'', ''Data transformation'', '''', '''',
                    ''Metabolite identification'', ''m_maf.tsv'']]\<rparr>]\<rparr>"
  by code_simp

text \<open>
  C2. The claim: the polarity of a row is read from the "Parameter Value[Scan polarity]"
  column of the header after pruning. The code takes \<^verbatim>\<open>polarity_idx\<close> from the header
  before pruning (5 here) and reads the pruned rows at it. Neither record names an
  instrument, so the three instrument columns before the polarity column are pruned and
  index 5 is now "Normalization Name", empty in both rows: one polarity value is seen and,
  with splitting enabled, one file holds the positive and the negative row.
\<close>

theorem stale_polarity_index_merges_polarities:
  "index_of example_header ''Parameter Value[Scan polarity]'' = Some 5
   \<and> create_assay ''x'' example_assay_template
        (map isa_tab_compatible [raw_plain_pos, raw_plain_neg]) True
     = Inr \<lparr>res_sample_names = [],
            res_written_assays = [''a_x_metabolite_profiling_mass_spectrometry.txt''],
            res_files =
              [\<lparr>af_name = ''a_x_metabolite_profiling_mass_spectrometry.txt'',
                af_header =
                  [''Sample Name'', ''Protocol REF'', ''Parameter Value[Scan polarity]'',
                   ''MS Assay Name'', ''Protocol REF'', ''Normalization Name'',
                   ''Derived Spectral Data File'', ''Protocol REF'',
                   ''Metabolite Assignment File''],
                af_rows =
                  [[''sample'', ''Mass spectrometry'', ''positive'', ''runC'',
                    ''Data transformation'', '''', '''', ''Metabolite identification'',
                    ''m_maf.tsv''],
                   [''sample'', ''Mass spectrometry'', ''negative'', ''runB'',
                    ''Data transformation'', '''', '''', ''Metabolite identification'',
                    ''m_maf.tsv'']]\<rparr>]\<rparr>"
  by code_simp

text \<open>
  C8. The claim: a column is deleted only if it lies strictly inside the MS block. The
  code scans from \<^verbatim>\<open>mass_protocol_idx\<close> itself, the "Protocol REF" column that holds
  "Mass spectrometry" and stands before the block. For an empty list of records every
  scanned column is empty in every row, and the header that is written has lost that
  column (index 1) together with the columns 2 to 7 of the block.
\<close>

theorem pruning_deletes_protocol_column:
  "index_of example_standard_row ''Mass spectrometry'' = Some 1
   \<and> remove_blank_columns 1 11 [] example_header
       = Inr ([''Sample Name'', ''Protocol REF'', ''Normalization Name'',
               ''Derived Spectral Data File'', ''Protocol REF'',
               ''Metabolite Assignment File''], [])
   \<and> create_assay ''x'' example_assay_template [] False
     = Inr \<lparr>res_sample_names = [],
            res_written_assays = [''a_x_metabolite_profiling_mass_spectrometry.txt''],
            res_files =
              [\<lparr>af_name = ''a_x_metabolite_profiling_mass_spectrometry.txt'',
                af_header =
                  [''Sample Name'', ''Protocol REF'', ''Normalization Name'',
                   ''Derived Spectral Data File'', ''Protocol REF'',
                   ''Metabolite Assignment File''],
                af_rows = []\<rparr>]\<rparr>"
  by code_simp

text \<open>
  C5. The claim: a "Study Assay" line is expanded only when more than one assay file was
  written. The code expands when the number of written files is not one. With no record
  and splitting enabled no assay file is written, and both "Study Assay" lines lose the
  value of the template: they are rewritten with no cell.
\<close>

theorem investigation_expands_for_no_assay:
  "create_assay ''x'' example_assay_template [] True
     = Inr \<lparr>res_sample_names = [], res_written_assays = [], res_files = []\<rparr>
   \<and> create_investigation Inr example_investigation []
     = Inr [''Study Title'' @ [tab] @ ''A study'' @ [CHR 0x0A],
            ''Study Assay Measurement Type'' @ [tab] @ [CHR 0x0A],
            ''Study Assay File Name'' @ [CHR 0x0A]]
   \<and> create_investigation Inr example_investigation [''a_x.txt'']
     = Inr example_investigation"
  by code_simp

end
